theory Spec2Isabelle
  imports Complex_Main
begin

section \<open>Python values and errors\<close>

text \<open>
  The program is Python. Its floats are modelled as the reals of HOL: rounding, overflow,
  infinities and NaN are outside the model, so every statement below is about the exact
  arithmetic that the floating-point code approximates. What the model keeps is every
  place where Python raises: a float division by zero, a \<^verbatim>\<open>math\<close> domain error, a name
  that no scope binds, an attribute that an object does not have. A computation that can
  raise returns \<open>error + 'a\<close>, with \<open>Inl\<close> for the exception.
\<close>

datatype error =
    ZeroDivisionError
  | ValueError
  | TypeError
  | NameError string
  | AttributeError string

definition ebind :: "error + 'a \<Rightarrow> ('a \<Rightarrow> error + 'b) \<Rightarrow> error + 'b" where
  "ebind m f = (case m of Inl e \<Rightarrow> Inl e | Inr x \<Rightarrow> f x)"

text \<open>Float division \<^verbatim>\<open>a / b\<close>: Python raises ZeroDivisionError when \<open>b\<close> is zero.\<close>

definition py_div :: "real \<Rightarrow> real \<Rightarrow> error + real" where
  "py_div a b = (if b = 0 then Inl ZeroDivisionError else Inr (a / b))"

text \<open>
  \<^verbatim>\<open>math.pow(x, y)\<close>: a negative base with a fractional exponent and a zero base with a
  negative exponent are domain errors; \<^verbatim>\<open>math.sqrt\<close>, \<^verbatim>\<open>math.log\<close> and
  \<^verbatim>\<open>math.log10\<close> raise outside their domains.
\<close>

definition math_pow :: "real \<Rightarrow> real \<Rightarrow> error + real" where
  "math_pow x y =
     (if 0 < x then Inr (x powr y)
      else if x = 0 then (if y < 0 then Inl ValueError else if y = 0 then Inr 1 else Inr 0)
      else if y = of_int \<lfloor>y\<rfloor> then Inr (x powi \<lfloor>y\<rfloor>)
      else Inl ValueError)"

definition math_sqrt :: "real \<Rightarrow> error + real" where
  "math_sqrt x = (if x < 0 then Inl ValueError else Inr (sqrt x))"

definition math_log :: "real \<Rightarrow> error + real" where
  "math_log x = (if x \<le> 0 then Inl ValueError else Inr (ln x))"

definition math_log10 :: "real \<Rightarrow> error + real" where
  "math_log10 x = (if x \<le> 0 then Inl ValueError else Inr (log 10 x))"

section \<open>utils/constants.py\<close>

definition R_UNIVERSAL :: real where "R_UNIVERSAL = 8.314"
definition R_AIR :: real where "R_AIR = 287.05"
definition G :: real where "G = 9.81"
definition HV_WATER :: real where "HV_WATER = 2442"

text \<open>The entries of \<^verbatim>\<open>CONVERSION_FACTORS\<close> that the pipeline reads.\<close>

definition ton_to_kg :: real where "ton_to_kg = 1000"
definition hour_to_sec :: real where "hour_to_sec = 3600"
definition inch_to_m :: real where "inch_to_m = 0.0254"
definition mmhg_to_kpa :: real where "mmhg_to_kpa = 0.133322"

text \<open>\<^verbatim>\<open>ANTOINE_WATER\<close>.\<close>

definition ANTOINE_A :: real where "ANTOINE_A = 8.07131"
definition ANTOINE_B :: real where "ANTOINE_B = 1730.63"
definition ANTOINE_C :: real where "ANTOINE_C = 233.426"

text \<open>
  \<^verbatim>\<open>GAS_PROPERTIES[gas]['molar_mass']\<close> in g/mol, gas by gas and as an association
  list in the order of the dictionary.
\<close>

definition molar_mass_CO2 :: real where "molar_mass_CO2 = 44.01"
definition molar_mass_H2O :: real where "molar_mass_H2O = 18.015"
definition molar_mass_O2 :: real where "molar_mass_O2 = 31.999"
definition molar_mass_N2 :: real where "molar_mass_N2 = 28.014"
definition molar_mass_SO2 :: real where "molar_mass_SO2 = 64.066"
definition molar_mass_AIR :: real where "molar_mass_AIR = 28.97"

definition GAS_PROPERTIES_molar_mass :: "(string \<times> real) list" where
  "GAS_PROPERTIES_molar_mass =
     [(''CO2'', molar_mass_CO2), (''H2O'', molar_mass_H2O), (''O2'', molar_mass_O2),
      (''N2'', molar_mass_N2), (''SO2'', molar_mass_SO2), (''AIR'', molar_mass_AIR)]"

text \<open>\<^verbatim>\<open>REFRACTORY_PROPERTIES\<close>.\<close>

definition refractory_thermal_conductivity :: real where
  "refractory_thermal_conductivity = 0.5"
definition refractory_thickness :: real where "refractory_thickness = 0.15"
definition refractory_roughness :: real where "refractory_roughness = 0.00015"

section \<open>utils/equations.py\<close>

text \<open>
  The global namespace of the module: what \<^verbatim>\<open>import math\<close>,
  \<^verbatim>\<open>from .constants import *\<close> and the module's own \<^verbatim>\<open>def\<close>s bind. A float has its
  value; a dictionary, a function or a module is \<open>None\<close> here, since using one as a
  number is a TypeError.
\<close>

definition equations_globals :: "(string \<times> real option) list" where
  "equations_globals =
     [(''math'', None),
      (''R_UNIVERSAL'', Some R_UNIVERSAL), (''R_AIR'', Some R_AIR), (''G'', Some G),
      (''ATOMIC_WEIGHTS'', None), (''HEAT_OF_COMBUSTION'', None),
      (''HV_WATER'', Some HV_WATER), (''CONVERSION_FACTORS'', None),
      (''BOGOTA_CONDITIONS'', None), (''ANTOINE_WATER'', None), (''GAS_PROPERTIES'', None),
      (''AIR_COMPOSITION'', None), (''REFRACTORY_PROPERTIES'', None),
      (''DESIGN_LIMITS'', None),
      (''pressure_altitude'', None), (''saturated_vapor_pressure'', None),
      (''absolute_humidity'', None), (''moist_air_enthalpy'', None),
      (''dulong_heating_value'', None), (''theoretical_air_fuel_ratio'', None),
      (''combustion_products'', None), (''gas_density'', None), (''reynolds_number'', None),
      (''colebrook_friction_factor'', None), (''pressure_drop_per_length'', None),
      (''adiabatic_flame_temperature'', None)]"

text \<open>
  Reading a name as a number inside a function of the module: the function's local
  variables first, then the module's globals; a name that neither binds (and that is no
  builtin) raises NameError.
\<close>

definition load_name :: "(string \<times> real) list \<Rightarrow> string \<Rightarrow> error + real" where
  "load_name locals name =
     (case map_of locals name of
        Some v \<Rightarrow> Inr v
      | None \<Rightarrow>
          (case map_of equations_globals name of
             Some (Some v) \<Rightarrow> Inr v
           | Some None \<Rightarrow> Inl TypeError
           | None \<Rightarrow> Inl (NameError name)))"

definition pressure_altitude :: "real \<Rightarrow> error + real" where
  "pressure_altitude altitude_meters =
     (let P0 = 101.325; L = 0.0065; T0 = 288.15; g = 9.81; M = 0.02896; R = 8.314 in
      if altitude_meters < 11000 then
        (let exponent = - (g * M) / (R * L);
             temp_ratio = 1 - (L * altitude_meters) / T0
         in ebind (math_pow temp_ratio exponent) (\<lambda>p. Inr (P0 * p)))
      else Inr (P0 * exp (- altitude_meters / 8500)))"

definition saturated_vapor_pressure :: "real \<Rightarrow> error + real" where
  "saturated_vapor_pressure temp_celsius =
     ebind (py_div ANTOINE_B (ANTOINE_C + temp_celsius)) (\<lambda>q.
       let log10_P = ANTOINE_A - q in math_pow 10 log10_P)"

definition absolute_humidity :: "real \<Rightarrow> real \<Rightarrow> real \<Rightarrow> error + real" where
  "absolute_humidity relative_humidity dry_bulb_temp atmospheric_pressure =
     ebind (saturated_vapor_pressure dry_bulb_temp) (\<lambda>P_sat.
       let P_v = (relative_humidity / 100) * P_sat;
           P_v_kPa = P_v * mmhg_to_kpa
       in py_div (0.622 * P_v_kPa) (atmospheric_pressure - P_v_kPa))"

definition moist_air_enthalpy :: "real \<Rightarrow> real \<Rightarrow> real" where
  "moist_air_enthalpy temp_celsius absolute_humidity' =
     (let h_air = 1.006 * temp_celsius;
          h_water = absolute_humidity' * (2501 + 1.86 * temp_celsius)
      in h_air + h_water)"

record heating_values =
  PCS :: real
  PCI :: real
  water_from_combustion :: real

text \<open>
  The renormalisation divides five times by \<open>total\<close>; the first division already raises
  when \<open>total\<close> is zero.
\<close>

definition dulong_heating_value ::
  "real \<Rightarrow> real \<Rightarrow> real \<Rightarrow> real \<Rightarrow> real \<Rightarrow> real \<Rightarrow> error + heating_values" where
  "dulong_heating_value carbon hydrogen oxygen sulfur ash moisture =
     (let total = carbon + hydrogen + oxygen + sulfur + ash in
      ebind
        (if total \<noteq> 100 then
           ebind (py_div (carbon * 100) total) (\<lambda>carbon'.
           ebind (py_div (hydrogen * 100) total) (\<lambda>hydrogen'.
           ebind (py_div (oxygen * 100) total) (\<lambda>oxygen'.
           ebind (py_div (sulfur * 100) total) (\<lambda>sulfur'.
           ebind (py_div (ash * 100) total) (\<lambda>ash'.
             Inr (carbon', hydrogen', oxygen', sulfur', ash'))))))
         else Inr (carbon, hydrogen, oxygen, sulfur, ash))
        (\<lambda>(carbon, hydrogen, oxygen, sulfur, ash).
           let PCS = 338.2 * carbon + 1442.8 * (hydrogen - oxygen / 8) + 94.2 * sulfur;
               water_combustion = 9 * hydrogen + moisture;
               PCI = PCS - HV_WATER * water_combustion / 100
           in Inr \<lparr>PCS = PCS, PCI = PCI, water_from_combustion = water_combustion\<rparr>))"

definition theoretical_air_fuel_ratio :: "real \<Rightarrow> real \<Rightarrow> real \<Rightarrow> real \<Rightarrow> real" where
  "theoretical_air_fuel_ratio carbon hydrogen oxygen sulfur =
     (let O2_required = (2.667 * carbon + 8 * hydrogen - 1.333 * oxygen + 2 * sulfur) / 100;
          air_theoretical = O2_required / 0.232
      in air_theoretical)"

record products =
  prod_CO2 :: real
  prod_H2O :: real
  prod_SO2 :: real
  prod_O2 :: real
  prod_N2 :: real
  prod_ash :: real
  prod_air_real :: real
  prod_total_gases :: real

text \<open>
  \<^verbatim>\<open>combustion_products(carbon, hydrogen, sulfur, moisture, ash, excess_air_percent)\<close>
  has no parameter \<^verbatim>\<open>oxygen\<close>, and its body reads that name in the third argument of
  the call of \<^verbatim>\<open>theoretical_air_fuel_ratio\<close>. The read goes through \<open>load_name\<close>
  with the local variables bound at that point.
\<close>

definition combustion_products ::
  "real \<Rightarrow> real \<Rightarrow> real \<Rightarrow> real \<Rightarrow> real \<Rightarrow> real \<Rightarrow> error + products" where
  "combustion_products carbon hydrogen sulfur moisture ash excess_air_percent =
     (let moisture_factor = (100 - moisture) / 100;
          CO2 = 3.67 * carbon * moisture_factor / 100;
          H2O_from_combustion = 9 * hydrogen * moisture_factor / 100;
          H2O_from_fuel = moisture / 100;
          H2O_total = H2O_from_combustion + H2O_from_fuel;
          SO2 = 2 * sulfur * moisture_factor / 100;
          locals = [(''carbon'', carbon), (''hydrogen'', hydrogen), (''sulfur'', sulfur),
                    (''moisture'', moisture), (''ash'', ash),
                    (''excess_air_percent'', excess_air_percent),
                    (''moisture_factor'', moisture_factor), (''CO2'', CO2),
                    (''H2O_from_combustion'', H2O_from_combustion),
                    (''H2O_from_fuel'', H2O_from_fuel), (''H2O_total'', H2O_total),
                    (''SO2'', SO2)]
      in ebind (load_name locals ''oxygen'') (\<lambda>oxygen.
           let air_theoretical = theoretical_air_fuel_ratio
                 (carbon * moisture_factor) (hydrogen * moisture_factor)
                 (oxygen * moisture_factor) (sulfur * moisture_factor);
               air_real = air_theoretical * (1 + excess_air_percent / 100);
               O2_excess = 0.232 * air_theoretical * (excess_air_percent / 100);
               N2_from_air = 0.768 * air_real;
               ash_mass = ash * moisture_factor / 100
           in Inr \<lparr>prod_CO2 = CO2, prod_H2O = H2O_total, prod_SO2 = SO2,
                    prod_O2 = O2_excess, prod_N2 = N2_from_air, prod_ash = ash_mass,
                    prod_air_real = air_real,
                    prod_total_gases = CO2 + H2O_total + SO2 + O2_excess + N2_from_air\<rparr>))"

text \<open>
  \<^verbatim>\<open>gas_density\<close> loops over the items of the composition dictionary and adds up the
  moles and the mass of every gas that \<^verbatim>\<open>GAS_PROPERTIES\<close> knows.
\<close>

fun gas_density_loop :: "(string \<times> real) list \<Rightarrow> real \<times> real \<Rightarrow> real \<times> real" where
  "gas_density_loop [] (total_moles, total_mass) = (total_moles, total_mass)"
| "gas_density_loop ((gas, mass_kg) # rest) (total_moles, total_mass) =
     (case map_of GAS_PROPERTIES_molar_mass gas of
        Some molar_mass \<Rightarrow>
          (let moles = mass_kg / (molar_mass / 1000)
           in gas_density_loop rest (total_moles + moles, total_mass + mass_kg))
      | None \<Rightarrow> gas_density_loop rest (total_moles, total_mass))"

definition gas_density :: "real \<Rightarrow> real \<Rightarrow> (string \<times> real) list \<Rightarrow> error + real" where
  "gas_density temperature_k pressure_pa composition =
     (case gas_density_loop composition (0, 0) of
        (total_moles, total_mass) \<Rightarrow>
          (let avg_molar_mass = (if total_moles > 0 then total_mass / total_moles else 0)
           in py_div (pressure_pa * avg_molar_mass) (R_UNIVERSAL * temperature_k)))"

definition reynolds_number :: "real \<Rightarrow> real \<Rightarrow> real \<Rightarrow> real \<Rightarrow> real" where
  "reynolds_number velocity diameter density viscosity =
     (density * velocity * diameter) / viscosity"

text \<open>
  One pass of the body of the loop of \<^verbatim>\<open>colebrook_friction_factor\<close> up to
  \<^verbatim>\<open>f_new\<close>, and the loop \<^verbatim>\<open>for _ in range(10)\<close> with its \<^verbatim>\<open>break\<close>: the first
  argument counts the passes that are left.
\<close>

definition colebrook_f_new :: "real \<Rightarrow> real \<Rightarrow> real \<Rightarrow> real \<Rightarrow> error + real" where
  "colebrook_f_new Re' diameter roughness f =
     ebind (py_div roughness diameter) (\<lambda>numerator.
     ebind (math_sqrt f) (\<lambda>s.
       let denominator = 3.7 * Re' * s in
       ebind (math_log10 (numerator + denominator)) (\<lambda>l.
       ebind (math_pow (- 2 * l) 2) (\<lambda>p.
         py_div 1 p))))"

text \<open>The Reynolds number is written \<open>Re'\<close>: \<open>Re\<close> is the real part of a complex number in HOL.\<close>

fun colebrook_loop :: "nat \<Rightarrow> real \<Rightarrow> real \<Rightarrow> real \<Rightarrow> real \<Rightarrow> error + real" where
  "colebrook_loop 0 Re' diameter roughness f = Inr f"
| "colebrook_loop (Suc n) Re' diameter roughness f =
     ebind (colebrook_f_new Re' diameter roughness f) (\<lambda>f_new.
       if \<bar>f_new - f\<bar> < 1 / 10 ^ 6 then Inr f
       else colebrook_loop n Re' diameter roughness f_new)"

definition colebrook_friction_factor :: "real \<Rightarrow> real \<Rightarrow> real \<Rightarrow> error + real" where
  "colebrook_friction_factor Re' diameter roughness =
     (if Re' < 2300 then py_div 64 Re'
      else colebrook_loop 10 Re' diameter roughness 0.02)"

text \<open>
  The value of \<^verbatim>\<open>f\<close> after \<open>k\<close> passes of the loop body that do not stop: \<open>k\<close> times
  \<open>colebrook_f_new\<close>, from the starting value.
\<close>

fun colebrook_iterate :: "nat \<Rightarrow> real \<Rightarrow> real \<Rightarrow> real \<Rightarrow> real \<Rightarrow> error + real" where
  "colebrook_iterate 0 Re' diameter roughness f = Inr f"
| "colebrook_iterate (Suc k) Re' diameter roughness f =
     ebind (colebrook_f_new Re' diameter roughness f) (colebrook_iterate k Re' diameter roughness)"

definition pressure_drop_per_length :: "real \<Rightarrow> real \<Rightarrow> real \<Rightarrow> real \<Rightarrow> error + real" where
  "pressure_drop_per_length friction_factor density velocity diameter =
     ebind (py_div 1 diameter) (\<lambda>inv_d.
       Inr (friction_factor * inv_d * (density * velocity ^ 2 / 2)))"

section \<open>models/biomass.py and models/results.py\<close>

text \<open>
  An attribute of a pydantic object read by name holds a float or a string. The sweeps
  assign floats to whatever field they are given (the models do not validate on
  assignment), so the string fields of the input hold a \<open>pyval\<close>.
\<close>

datatype pyval = PyFloat real | PyStr string

definition py_num :: "pyval \<Rightarrow> error + real" where
  "py_num v = (case v of PyFloat x \<Rightarrow> Inr x | PyStr s \<Rightarrow> Inl TypeError)"

record BiomassInput =
  project_code :: pyval
  document_code :: pyval
  analyst :: pyval
  city :: pyval
  altitude :: real
  relative_humidity :: real
  dry_bulb_temp :: real
  biomass_type :: pyval
  reported_pci :: real
  furnace_efficiency :: real
  excess_air :: real
  duct_diameter :: real
  carbon :: real
  hydrogen :: real
  oxygen :: real
  nitrogen :: real
  sulfur :: real
  ash :: real
  moisture :: real
  flow_rate :: real

text \<open>
  \<^verbatim>\<open>getattr(input, name)\<close> and \<^verbatim>\<open>setattr(input, name, value)\<close>. The fields are the
  declared ones, under their declared names: the lower heating value is
  \<^verbatim>\<open>reported_pci\<close>. Any other name is an AttributeError on reading.
\<close>

definition BiomassInput_fields :: "BiomassInput \<Rightarrow> (string \<times> pyval) list" where
  "BiomassInput_fields inp =
     [(''project_code'', project_code inp), (''document_code'', document_code inp),
      (''analyst'', analyst inp), (''city'', city inp),
      (''altitude'', PyFloat (altitude inp)),
      (''relative_humidity'', PyFloat (relative_humidity inp)),
      (''dry_bulb_temp'', PyFloat (dry_bulb_temp inp)),
      (''biomass_type'', biomass_type inp),
      (''reported_pci'', PyFloat (reported_pci inp)),
      (''furnace_efficiency'', PyFloat (furnace_efficiency inp)),
      (''excess_air'', PyFloat (excess_air inp)),
      (''duct_diameter'', PyFloat (duct_diameter inp)),
      (''carbon'', PyFloat (carbon inp)), (''hydrogen'', PyFloat (hydrogen inp)),
      (''oxygen'', PyFloat (oxygen inp)), (''nitrogen'', PyFloat (nitrogen inp)),
      (''sulfur'', PyFloat (sulfur inp)), (''ash'', PyFloat (ash inp)),
      (''moisture'', PyFloat (moisture inp)), (''flow_rate'', PyFloat (flow_rate inp))]"

definition getattr_input :: "BiomassInput \<Rightarrow> string \<Rightarrow> error + pyval" where
  "getattr_input inp name =
     (case map_of (BiomassInput_fields inp) name of
        Some v \<Rightarrow> Inr v
      | None \<Rightarrow> Inl (AttributeError name))"

text \<open>
  Assigning to a float field: the program only ever assigns floats (a sample of a sweep,
  or the field's own earlier value), so a string there is a TypeError of the model, never
  reached. Assigning to a name that is no field is refused by pydantic with a ValueError.
\<close>

definition set_float :: "pyval \<Rightarrow> (real \<Rightarrow> BiomassInput) \<Rightarrow> error + BiomassInput" where
  "set_float v upd = (case v of PyFloat x \<Rightarrow> Inr (upd x) | PyStr s \<Rightarrow> Inl TypeError)"

definition setattr_input :: "BiomassInput \<Rightarrow> string \<Rightarrow> pyval \<Rightarrow> error + BiomassInput" where
  "setattr_input inp name v =
     (if name = ''project_code'' then Inr (inp\<lparr>project_code := v\<rparr>)
      else if name = ''document_code'' then Inr (inp\<lparr>document_code := v\<rparr>)
      else if name = ''analyst'' then Inr (inp\<lparr>analyst := v\<rparr>)
      else if name = ''city'' then Inr (inp\<lparr>city := v\<rparr>)
      else if name = ''altitude'' then set_float v (\<lambda>x. inp\<lparr>altitude := x\<rparr>)
      else if name = ''relative_humidity'' then set_float v (\<lambda>x. inp\<lparr>relative_humidity := x\<rparr>)
      else if name = ''dry_bulb_temp'' then set_float v (\<lambda>x. inp\<lparr>dry_bulb_temp := x\<rparr>)
      else if name = ''biomass_type'' then Inr (inp\<lparr>biomass_type := v\<rparr>)
      else if name = ''reported_pci'' then set_float v (\<lambda>x. inp\<lparr>reported_pci := x\<rparr>)
      else if name = ''furnace_efficiency'' then set_float v (\<lambda>x. inp\<lparr>furnace_efficiency := x\<rparr>)
      else if name = ''excess_air'' then set_float v (\<lambda>x. inp\<lparr>excess_air := x\<rparr>)
      else if name = ''duct_diameter'' then set_float v (\<lambda>x. inp\<lparr>duct_diameter := x\<rparr>)
      else if name = ''carbon'' then set_float v (\<lambda>x. inp\<lparr>carbon := x\<rparr>)
      else if name = ''hydrogen'' then set_float v (\<lambda>x. inp\<lparr>hydrogen := x\<rparr>)
      else if name = ''oxygen'' then set_float v (\<lambda>x. inp\<lparr>oxygen := x\<rparr>)
      else if name = ''nitrogen'' then set_float v (\<lambda>x. inp\<lparr>nitrogen := x\<rparr>)
      else if name = ''sulfur'' then set_float v (\<lambda>x. inp\<lparr>sulfur := x\<rparr>)
      else if name = ''ash'' then set_float v (\<lambda>x. inp\<lparr>ash := x\<rparr>)
      else if name = ''moisture'' then set_float v (\<lambda>x. inp\<lparr>moisture := x\<rparr>)
      else if name = ''flow_rate'' then set_float v (\<lambda>x. inp\<lparr>flow_rate := x\<rparr>)
      else Inl ValueError)"

record composition_wet =
  wet_C :: real
  wet_H :: real
  wet_O :: real
  wet_N :: real
  wet_S :: real
  wet_ash :: real
  wet_H2O :: real

text \<open>
  \<^verbatim>\<open>CombustionResults\<close>. Three of its fields share their names with functions of
  \<^verbatim>\<open>equations.py\<close> and carry the suffix \<open>_out\<close> here.
\<close>

record CombustionResults =
  pcs :: real
  pci_calculated :: real
  composition_wet_base :: composition_wet
  air_density :: real
  absolute_humidity_out :: real
  air_enthalpy :: real
  theoretical_air :: real
  real_air :: real
  excess_air_percentage :: real
  co2 :: real
  h2o :: real
  so2 :: real
  o2_excess :: real
  n2 :: real
  total_gas_mass :: real
  co2_fraction_vol :: real
  h2o_fraction_vol :: real
  so2_fraction_vol :: real
  o2_fraction_vol :: real
  n2_fraction_vol :: real
  total_energy_released :: real
  useful_energy :: real
  adiabatic_flame_temp :: real
  outlet_gas_temp :: real
  chimney_losses :: real
  real_efficiency :: real
  gas_density_out :: real
  volumetric_flow :: real
  duct_area :: real
  gas_velocity :: real
  reynolds_number_out :: real
  friction_factor :: real
  pressure_drop :: real
  thermal_resistance :: real
  heat_transfer_coefficient :: real
  heat_loss_per_meter :: real
  external_wall_temp :: real
  refractory_gradient :: real
  insulation_efficiency :: real
  co2_emission_factor :: real
  co2_concentration_dry :: real
  volumetric_heating_value :: real
  flow_rate_kg_s :: real
  mass_flow_gases :: real

text \<open>
  \<^verbatim>\<open>getattr(results, name)\<close> read as a number: the float fields under their declared
  names; the dictionary \<^verbatim>\<open>composition_wet_base\<close> is no number; a name that is no field
  is an AttributeError (the methods that pydantic itself gives the object are not
  modelled).
\<close>

definition CombustionResults_fields :: "CombustionResults \<Rightarrow> (string \<times> real option) list" where
  "CombustionResults_fields r =
     [(''pcs'', Some (pcs r)), (''pci_calculated'', Some (pci_calculated r)),
      (''composition_wet_base'', None),
      (''air_density'', Some (air_density r)),
      (''absolute_humidity'', Some (absolute_humidity_out r)),
      (''air_enthalpy'', Some (air_enthalpy r)),
      (''theoretical_air'', Some (theoretical_air r)), (''real_air'', Some (real_air r)),
      (''excess_air_percentage'', Some (excess_air_percentage r)),
      (''co2'', Some (co2 r)), (''h2o'', Some (h2o r)), (''so2'', Some (so2 r)),
      (''o2_excess'', Some (o2_excess r)), (''n2'', Some (n2 r)),
      (''total_gas_mass'', Some (total_gas_mass r)),
      (''co2_fraction_vol'', Some (co2_fraction_vol r)),
      (''h2o_fraction_vol'', Some (h2o_fraction_vol r)),
      (''so2_fraction_vol'', Some (so2_fraction_vol r)),
      (''o2_fraction_vol'', Some (o2_fraction_vol r)),
      (''n2_fraction_vol'', Some (n2_fraction_vol r)),
      (''total_energy_released'', Some (total_energy_released r)),
      (''useful_energy'', Some (useful_energy r)),
      (''adiabatic_flame_temp'', Some (adiabatic_flame_temp r)),
      (''outlet_gas_temp'', Some (outlet_gas_temp r)),
      (''chimney_losses'', Some (chimney_losses r)),
      (''real_efficiency'', Some (real_efficiency r)),
      (''gas_density'', Some (gas_density_out r)),
      (''volumetric_flow'', Some (volumetric_flow r)),
      (''duct_area'', Some (duct_area r)), (''gas_velocity'', Some (gas_velocity r)),
      (''reynolds_number'', Some (reynolds_number_out r)),
      (''friction_factor'', Some (friction_factor r)),
      (''pressure_drop'', Some (pressure_drop r)),
      (''thermal_resistance'', Some (thermal_resistance r)),
      (''heat_transfer_coefficient'', Some (heat_transfer_coefficient r)),
      (''heat_loss_per_meter'', Some (heat_loss_per_meter r)),
      (''external_wall_temp'', Some (external_wall_temp r)),
      (''refractory_gradient'', Some (refractory_gradient r)),
      (''insulation_efficiency'', Some (insulation_efficiency r)),
      (''co2_emission_factor'', Some (co2_emission_factor r)),
      (''co2_concentration_dry'', Some (co2_concentration_dry r)),
      (''volumetric_heating_value'', Some (volumetric_heating_value r)),
      (''flow_rate_kg_s'', Some (flow_rate_kg_s r)),
      (''mass_flow_gases'', Some (mass_flow_gases r))]"

definition getattr_results :: "CombustionResults \<Rightarrow> string \<Rightarrow> error + real" where
  "getattr_results r name =
     (case map_of (CombustionResults_fields r) name of
        Some (Some x) \<Rightarrow> Inr x
      | Some None \<Rightarrow> Inl TypeError
      | None \<Rightarrow> Inl (AttributeError name))"

record SensibilityResults =
  parameter_name :: string
  parameter_values :: "real list"
  temperatures :: "real list"
  velocities :: "real list"
  pressure_drops :: "real list"
  efficiencies :: "real list"

section \<open>services/combustion.py\<close>

text \<open>
  \<^verbatim>\<open>CombustionCalculator\<close> keeps its intermediate values in the dictionary
  \<^verbatim>\<open>self.results\<close>. \<^verbatim>\<open>calculate_all\<close> runs the eight groups in a fixed order and every
  key is written before it is read, so the dictionary is modelled by one record for the
  keys each group writes (field \<open>r_k\<close> for key \<open>k\<close>), handed to the groups that read
  them.
\<close>

record fuel_properties =
  r_composition_wet :: composition_wet
  r_PCS :: real
  r_PCI_calculated :: real
  r_theoretical_air :: real
  r_real_air :: real
  r_water_combustion :: real

record air_properties =
  r_atmospheric_pressure :: real
  r_air_density :: real
  r_absolute_humidity :: real
  r_air_enthalpy :: real

record stoichiometry =
  r_products :: products
  r_CO2_mass :: real
  r_H2O_mass :: real
  r_SO2_mass :: real
  r_O2_excess :: real
  r_N2_mass :: real

record mass_balance =
  r_flow_rate_kg_s :: real
  r_total_gas_mass :: real
  r_mass_flow_gases :: real

record energy_balance_results =
  r_total_energy :: real
  r_useful_energy :: real
  r_adiabatic_temp :: real
  r_outlet_temp :: real
  r_real_efficiency :: real
  r_chimney_losses :: real

record fluid_dynamics =
  r_gas_density :: real
  r_volumetric_flow :: real
  r_duct_area :: real
  r_gas_velocity :: real
  r_reynolds :: real
  r_friction_factor :: real
  r_pressure_drop :: real

record heat_transfer =
  r_thermal_resistance :: real
  r_heat_transfer_coefficient :: real
  r_heat_loss_per_meter :: real
  r_external_wall_temp :: real
  r_refractory_gradient :: real
  r_insulation_efficiency :: real

record emissions =
  r_co2_emission_factor :: real
  r_co2_concentration_dry :: real
  r_volumetric_heating_value :: real

definition calculate_fuel_properties :: "BiomassInput \<Rightarrow> error + fuel_properties" where
  "calculate_fuel_properties inp =
     (let moisture_factor = (100 - moisture inp) / 100;
          composition_wet =
            \<lparr>wet_C = carbon inp * moisture_factor, wet_H = hydrogen inp * moisture_factor,
             wet_O = oxygen inp * moisture_factor, wet_N = nitrogen inp * moisture_factor,
             wet_S = sulfur inp * moisture_factor, wet_ash = ash inp * moisture_factor,
             wet_H2O = moisture inp\<rparr>
      in ebind (dulong_heating_value (carbon inp) (hydrogen inp) (oxygen inp) (sulfur inp)
                  (ash inp) (moisture inp)) (\<lambda>heating_values.
           let theoretical_air = theoretical_air_fuel_ratio (carbon inp) (hydrogen inp)
                 (oxygen inp) (sulfur inp);
               real_air = theoretical_air * (1 + excess_air inp / 100)
           in Inr \<lparr>r_composition_wet = composition_wet,
                    r_PCS = PCS heating_values,
                    r_PCI_calculated = PCI heating_values,
                    r_theoretical_air = theoretical_air,
                    r_real_air = real_air,
                    r_water_combustion = water_from_combustion heating_values\<rparr>))"

definition calculate_air_properties :: "BiomassInput \<Rightarrow> error + air_properties" where
  "calculate_air_properties inp =
     ebind (pressure_altitude (altitude inp)) (\<lambda>atmospheric_pressure.
       let temp_k = dry_bulb_temp inp + 273.15;
           pressure_pa = atmospheric_pressure * 1000
       in ebind (py_div pressure_pa (R_AIR * temp_k)) (\<lambda>air_density.
          ebind (absolute_humidity (relative_humidity inp) (dry_bulb_temp inp)
                   atmospheric_pressure) (\<lambda>absolute_humidity'.
            Inr \<lparr>r_atmospheric_pressure = atmospheric_pressure,
                 r_air_density = air_density,
                 r_absolute_humidity = absolute_humidity',
                 r_air_enthalpy = moist_air_enthalpy (dry_bulb_temp inp) absolute_humidity'\<rparr>)))"

definition calculate_stoichiometry :: "BiomassInput \<Rightarrow> error + stoichiometry" where
  "calculate_stoichiometry inp =
     ebind (combustion_products (carbon inp) (hydrogen inp) (sulfur inp) (moisture inp)
              (ash inp) (excess_air inp)) (\<lambda>products.
       Inr \<lparr>r_products = products,
            r_CO2_mass = prod_CO2 products,
            r_H2O_mass = prod_H2O products,
            r_SO2_mass = prod_SO2 products,
            r_O2_excess = prod_O2 products,
            r_N2_mass = prod_N2 products\<rparr>)"

definition calculate_mass_balance ::
  "BiomassInput \<Rightarrow> fuel_properties \<Rightarrow> stoichiometry \<Rightarrow> mass_balance" where
  "calculate_mass_balance inp fuel stoich =
     (let flow_rate_kg_s = flow_rate inp * ton_to_kg / hour_to_sec
      in \<lparr>r_flow_rate_kg_s = flow_rate_kg_s,
          r_total_gas_mass = prod_total_gases (r_products stoich),
          r_mass_flow_gases = flow_rate_kg_s * (1 + r_real_air fuel)\<rparr>)"

text \<open>
  The function handed to the root finder. \<^verbatim>\<open>scipy.optimize.fsolve\<close> is a library outside
  the repository: the model takes it as a parameter \<open>fsolve\<close>, from a function and a
  starting point to the root it reports.
\<close>

definition energy_balance :: "fuel_properties \<Rightarrow> stoichiometry \<Rightarrow> real \<Rightarrow> real" where
  "energy_balance fuel stoich T =
     (let Q_comb = r_PCI_calculated fuel * 1000;
          Cp_CO2 = 0.844 * (T - 298) * r_CO2_mass stoich;
          Cp_H2O = 1.86 * (T - 298) * r_H2O_mass stoich;
          Cp_O2 = 0.918 * (T - 298) * r_O2_excess stoich;
          Cp_N2 = 1.04 * (T - 298) * r_N2_mass stoich;
          Cp_SO2 = 0.64 * (T - 298) * r_SO2_mass stoich;
          Q_absorbed = Cp_CO2 + Cp_H2O + Cp_O2 + Cp_N2 + Cp_SO2
      in Q_comb - Q_absorbed)"

definition calculate_adiabatic_temperature ::
  "((real \<Rightarrow> real) \<Rightarrow> real \<Rightarrow> real) \<Rightarrow> fuel_properties \<Rightarrow> stoichiometry \<Rightarrow> real" where
  "calculate_adiabatic_temperature fsolve fuel stoich =
     (let T_guess = 2000;
          T_adiabatic = fsolve (energy_balance fuel stoich) T_guess
      in max T_adiabatic 298)"

text \<open>
  The energy balance reads \<^verbatim>\<open>self.input.reported_PCI\<close>, by that name, after
  \<^verbatim>\<open>self.results['flow_rate_kg_s']\<close>.
\<close>

definition calculate_energy_balance ::
  "((real \<Rightarrow> real) \<Rightarrow> real \<Rightarrow> real) \<Rightarrow> BiomassInput \<Rightarrow> fuel_properties \<Rightarrow> stoichiometry
     \<Rightarrow> mass_balance \<Rightarrow> error + energy_balance_results" where
  "calculate_energy_balance fsolve inp fuel stoich mass =
     ebind (getattr_input inp ''reported_PCI'') (\<lambda>v.
     ebind (py_num v) (\<lambda>reported_PCI.
       let total_energy = r_flow_rate_kg_s mass * reported_PCI;
           useful_energy = total_energy * (furnace_efficiency inp / 100);
           adiabatic_temp = calculate_adiabatic_temperature fsolve fuel stoich;
           Cp_avg = 1.1
       in ebind (py_div useful_energy (r_mass_flow_gases mass * Cp_avg)) (\<lambda>temp_rise.
            Inr \<lparr>r_total_energy = total_energy,
                 r_useful_energy = useful_energy,
                 r_adiabatic_temp = adiabatic_temp,
                 r_outlet_temp = dry_bulb_temp inp + temp_rise,
                 r_real_efficiency = furnace_efficiency inp,
                 r_chimney_losses = total_energy - useful_energy\<rparr>)))"

definition calculate_fluid_dynamics ::
  "BiomassInput \<Rightarrow> air_properties \<Rightarrow> stoichiometry \<Rightarrow> mass_balance \<Rightarrow> energy_balance_results
     \<Rightarrow> error + fluid_dynamics" where
  "calculate_fluid_dynamics inp air stoich mass energy =
     (let temp_avg_k = (r_outlet_temp energy + dry_bulb_temp inp) / 2 + 273.15;
          pressure_pa = r_atmospheric_pressure air * 1000;
          gas_composition =
            [(''CO2'', r_CO2_mass stoich), (''H2O'', r_H2O_mass stoich),
             (''SO2'', r_SO2_mass stoich), (''O2'', r_O2_excess stoich),
             (''N2'', r_N2_mass stoich)]
      in ebind (gas_density temp_avg_k pressure_pa gas_composition) (\<lambda>gas_density'.
         ebind (py_div (r_mass_flow_gases mass) gas_density') (\<lambda>volumetric_flow'.
           let diameter_m = duct_diameter inp * inch_to_m;
               duct_area' = pi * (diameter_m ^ 2) / 4
           in ebind (py_div volumetric_flow' duct_area') (\<lambda>gas_velocity'.
                let reynolds = reynolds_number gas_velocity' diameter_m gas_density' 0.000018
                in ebind (colebrook_friction_factor reynolds diameter_m refractory_roughness)
                     (\<lambda>friction_factor'.
                   ebind (pressure_drop_per_length friction_factor' gas_density' gas_velocity'
                            diameter_m) (\<lambda>pressure_drop'.
                     Inr \<lparr>r_gas_density = gas_density',
                          r_volumetric_flow = volumetric_flow',
                          r_duct_area = duct_area',
                          r_gas_velocity = gas_velocity',
                          r_reynolds = reynolds,
                          r_friction_factor = friction_factor',
                          r_pressure_drop = pressure_drop'\<rparr>))))))"

definition calculate_heat_transfer ::
  "BiomassInput \<Rightarrow> energy_balance_results \<Rightarrow> error + heat_transfer" where
  "calculate_heat_transfer inp energy =
     (let diameter_m = duct_diameter inp * inch_to_m;
          h_internal = 50;
          h_external = 10
      in ebind (py_div 1 (h_internal * pi * diameter_m)) (\<lambda>R_convection_int.
         ebind (py_div (diameter_m / 2 + refractory_thickness) (diameter_m / 2)) (\<lambda>ratio.
         ebind (math_log ratio) (\<lambda>log_ratio.
         ebind (py_div 1 (h_external * pi * (diameter_m + 2 * refractory_thickness)))
           (\<lambda>R_convection_ext.
           let R_conduction = log_ratio / (2 * pi * refractory_thermal_conductivity);
               thermal_resistance' = R_convection_int + R_conduction + R_convection_ext
           in ebind (py_div 1 thermal_resistance') (\<lambda>heat_transfer_coefficient'.
                let delta_T = r_outlet_temp energy - dry_bulb_temp inp;
                    heat_loss_per_meter' = heat_transfer_coefficient' * delta_T;
                    external_wall_temp' =
                      dry_bulb_temp inp + (heat_loss_per_meter' * R_convection_ext);
                    refractory_gradient' = heat_loss_per_meter' * R_conduction;
                    heat_loss_no_insulation = h_external * pi * diameter_m * delta_T
                in ebind (py_div (heat_loss_no_insulation - heat_loss_per_meter')
                            heat_loss_no_insulation) (\<lambda>q.
                     Inr \<lparr>r_thermal_resistance = thermal_resistance',
                          r_heat_transfer_coefficient = heat_transfer_coefficient',
                          r_heat_loss_per_meter = heat_loss_per_meter',
                          r_external_wall_temp = external_wall_temp',
                          r_refractory_gradient = refractory_gradient',
                          r_insulation_efficiency = q * 100\<rparr>)))))))"

definition calculate_emissions :: "fuel_properties \<Rightarrow> stoichiometry \<Rightarrow> emissions" where
  "calculate_emissions fuel stoich =
     (let co2_emission_factor' = 44 / 12 * wet_C (r_composition_wet fuel) / 100;
          dry_gases = r_CO2_mass stoich + r_O2_excess stoich + r_N2_mass stoich
                      + r_SO2_mass stoich;
          co2_concentration_dry' =
            (if dry_gases > 0 then r_CO2_mass stoich / dry_gases * 100 else 0);
          fuel_density = 1200
      in \<lparr>r_co2_emission_factor = co2_emission_factor',
          r_co2_concentration_dry = co2_concentration_dry',
          r_volumetric_heating_value = r_PCI_calculated fuel * fuel_density\<rparr>)"

text \<open>
  \<^verbatim>\<open>_compile_results\<close>: the volumetric fractions, then the output record. \<open>total_vol\<close>
  is the sum of the five masses over their molar masses.
\<close>

definition total_vol :: "stoichiometry \<Rightarrow> real" where
  "total_vol stoich =
     r_CO2_mass stoich / molar_mass_CO2 + r_H2O_mass stoich / molar_mass_H2O
     + r_O2_excess stoich / molar_mass_O2 + r_N2_mass stoich / molar_mass_N2
     + r_SO2_mass stoich / molar_mass_SO2"

definition compile_results ::
  "BiomassInput \<Rightarrow> fuel_properties \<Rightarrow> air_properties \<Rightarrow> stoichiometry \<Rightarrow> mass_balance
     \<Rightarrow> energy_balance_results \<Rightarrow> fluid_dynamics \<Rightarrow> heat_transfer \<Rightarrow> emissions
     \<Rightarrow> CombustionResults" where
  "compile_results inp fuel air stoich mass energy fluid heat emis =
     (let (co2_vol, h2o_vol, so2_vol, o2_vol, n2_vol) =
            (if total_vol stoich > 0 then
               ((r_CO2_mass stoich / molar_mass_CO2) / total_vol stoich * 100,
                (r_H2O_mass stoich / molar_mass_H2O) / total_vol stoich * 100,
                (r_SO2_mass stoich / molar_mass_SO2) / total_vol stoich * 100,
                (r_O2_excess stoich / molar_mass_O2) / total_vol stoich * 100,
                (r_N2_mass stoich / molar_mass_N2) / total_vol stoich * 100)
             else (0, 0, 0, 0, 0))
      in \<lparr>pcs = r_PCS fuel,
          pci_calculated = r_PCI_calculated fuel,
          composition_wet_base = r_composition_wet fuel,
          air_density = r_air_density air,
          absolute_humidity_out = r_absolute_humidity air,
          air_enthalpy = r_air_enthalpy air,
          theoretical_air = r_theoretical_air fuel,
          real_air = r_real_air fuel,
          excess_air_percentage = excess_air inp,
          co2 = r_CO2_mass stoich,
          h2o = r_H2O_mass stoich,
          so2 = r_SO2_mass stoich,
          o2_excess = r_O2_excess stoich,
          n2 = r_N2_mass stoich,
          total_gas_mass = r_total_gas_mass mass,
          co2_fraction_vol = co2_vol,
          h2o_fraction_vol = h2o_vol,
          so2_fraction_vol = so2_vol,
          o2_fraction_vol = o2_vol,
          n2_fraction_vol = n2_vol,
          total_energy_released = r_total_energy energy / 1000,
          useful_energy = r_useful_energy energy / 1000,
          adiabatic_flame_temp = r_adiabatic_temp energy,
          outlet_gas_temp = r_outlet_temp energy,
          chimney_losses = r_chimney_losses energy / 1000,
          real_efficiency = r_real_efficiency energy,
          gas_density_out = r_gas_density fluid,
          volumetric_flow = r_volumetric_flow fluid,
          duct_area = r_duct_area fluid,
          gas_velocity = r_gas_velocity fluid,
          reynolds_number_out = r_reynolds fluid,
          friction_factor = r_friction_factor fluid,
          pressure_drop = r_pressure_drop fluid,
          thermal_resistance = r_thermal_resistance heat,
          heat_transfer_coefficient = r_heat_transfer_coefficient heat,
          heat_loss_per_meter = r_heat_loss_per_meter heat,
          external_wall_temp = r_external_wall_temp heat,
          refractory_gradient = r_refractory_gradient heat,
          insulation_efficiency = r_insulation_efficiency heat,
          co2_emission_factor = r_co2_emission_factor emis,
          co2_concentration_dry = r_co2_concentration_dry emis,
          volumetric_heating_value = r_volumetric_heating_value emis,
          flow_rate_kg_s = r_flow_rate_kg_s mass,
          mass_flow_gases = r_mass_flow_gases mass\<rparr>)"

definition calculate_all ::
  "((real \<Rightarrow> real) \<Rightarrow> real \<Rightarrow> real) \<Rightarrow> BiomassInput \<Rightarrow> error + CombustionResults" where
  "calculate_all fsolve inp =
     ebind (calculate_fuel_properties inp) (\<lambda>fuel.
     ebind (calculate_air_properties inp) (\<lambda>air.
     ebind (calculate_stoichiometry inp) (\<lambda>stoich.
       let mass = calculate_mass_balance inp fuel stoich
       in ebind (calculate_energy_balance fsolve inp fuel stoich mass) (\<lambda>energy.
          ebind (calculate_fluid_dynamics inp air stoich mass energy) (\<lambda>fluid.
          ebind (calculate_heat_transfer inp energy) (\<lambda>heat.
            let emis = calculate_emissions fuel stoich
            in Inr (compile_results inp fuel air stoich mass energy fluid heat emis)))))))"

text \<open>
  \<^verbatim>\<open>sensitivity_analysis\<close> writes each value into the field of the shared input, runs
  the pipeline and appends to the four lists; the input is threaded through the loop. An
  exception leaves the loop at once.
\<close>

fun sensitivity_loop ::
  "((real \<Rightarrow> real) \<Rightarrow> real \<Rightarrow> real) \<Rightarrow> BiomassInput \<Rightarrow> string \<Rightarrow> real list
     \<Rightarrow> real list \<times> real list \<times> real list \<times> real list
     \<Rightarrow> error + (BiomassInput \<times> real list \<times> real list \<times> real list \<times> real list)" where
  "sensitivity_loop fsolve inp name [] acc = Inr (inp, acc)"
| "sensitivity_loop fsolve inp name (v # rest) (temps, vels, drops, effs) =
     ebind (setattr_input inp name (PyFloat v)) (\<lambda>inp'.
     ebind (calculate_all fsolve inp') (\<lambda>results.
       sensitivity_loop fsolve inp' name rest
         (temps @ [outlet_gas_temp results - 273.15],
          vels @ [gas_velocity results],
          drops @ [pressure_drop results],
          effs @ [real_efficiency results])))"

definition sensitivity_analysis ::
  "((real \<Rightarrow> real) \<Rightarrow> real \<Rightarrow> real) \<Rightarrow> BiomassInput \<Rightarrow> string \<Rightarrow> real list
     \<Rightarrow> error + (SensibilityResults \<times> BiomassInput)" where
  "sensitivity_analysis fsolve inp name vals =
     ebind (getattr_input inp name) (\<lambda>original_value.
     ebind (sensitivity_loop fsolve inp name vals ([], [], [], []))
       (\<lambda>(inp', temps, vels, drops, effs).
     ebind (setattr_input inp' name original_value) (\<lambda>inp''.
       Inr (\<lparr>parameter_name = name, parameter_values = vals, temperatures = temps,
             velocities = vels, pressure_drops = drops, efficiencies = effs\<rparr>, inp''))))"

section \<open>services/sensitivity.py\<close>

text \<open>
  \<^verbatim>\<open>numpy.linspace(start, stop, num)\<close>: \<open>num\<close> evenly spaced samples with both ends
  included; a negative \<open>num\<close> is refused with a ValueError.
\<close>

definition linspace :: "real \<Rightarrow> real \<Rightarrow> nat \<Rightarrow> real list" where
  "linspace start stop num =
     (if num = 1 then [start]
      else map (\<lambda>i. start + real i * ((stop - start) / real (num - 1))) [0..<num])"

definition np_linspace :: "real \<Rightarrow> real \<Rightarrow> int \<Rightarrow> error + real list" where
  "np_linspace start stop num =
     (if num < 0 then Inl ValueError else Inr (linspace start stop (nat num)))"

text \<open>The unit of the temperature is the degree sign and C: its UTF-8 bytes here.\<close>

definition get_parameter_unit :: "string \<Rightarrow> string" where
  "get_parameter_unit name =
     (case map_of
        [(''flow_rate'', ''ton/hora''), (''reported_PCI'', ''kJ/kg''),
         (''furnace_efficiency'', ''%''), (''excess_air'', ''%''),
         (''duct_diameter'', ''pulgadas''), (''carbon'', ''%''), (''hydrogen'', ''%''),
         (''oxygen'', ''%''), (''nitrogen'', ''%''), (''sulfur'', ''%''), (''ash'', ''%''),
         (''moisture'', ''%''), (''relative_humidity'', ''%''),
         (''dry_bulb_temp'', [CHR 0xC2, CHR 0xB0, CHR ''C'']),
         (''altitude'', ''m'')] name of
        Some u \<Rightarrow> u
      | None \<Rightarrow> [])"

record 'm parameter_analysis =
  pa_parameter :: string
  pa_base_value :: real
  pa_unit :: string
  pa_values :: "real list"
  pa_results :: SensibilityResults
  pa_metrics :: 'm

text \<open>
  \<^verbatim>\<open>analyze_parameter\<close>. The metrics are numpy arithmetic on the finished sweep
  (\<^verbatim>\<open>_calculate_sensitivity_metrics\<close>); the model takes them as a parameter
  \<open>metrics\<close>, which may raise.
\<close>

definition analyze_parameter ::
  "((real \<Rightarrow> real) \<Rightarrow> real \<Rightarrow> real) \<Rightarrow> (real list \<Rightarrow> SensibilityResults \<Rightarrow> error + 'm)
     \<Rightarrow> BiomassInput \<Rightarrow> string \<Rightarrow> real \<Rightarrow> int \<Rightarrow> error + 'm parameter_analysis" where
  "analyze_parameter fsolve metrics inp name range_percent num_points =
     ebind (getattr_input inp name) (\<lambda>v.
     ebind (py_num v) (\<lambda>base_value.
       let min_val = base_value * (1 - range_percent / 100);
           max_val = base_value * (1 + range_percent / 100)
       in ebind (np_linspace min_val max_val num_points) (\<lambda>vals.
          ebind (sensitivity_analysis fsolve inp name vals) (\<lambda>(results, inp').
          ebind (metrics vals results) (\<lambda>sensitivity_metrics.
            Inr \<lparr>pa_parameter = name, pa_base_value = base_value,
                 pa_unit = get_parameter_unit name, pa_values = vals,
                 pa_results = results, pa_metrics = sensitivity_metrics\<rparr>)))))"

text \<open>
  The optimizer. The constraint dictionary is a record of its six optional keys. The
  best score starts at \<^verbatim>\<open>float('-inf')\<close>: a score is \<open>real option\<close> with \<open>None\<close> for minus
  infinity, below every sample's score. The optimizer assigns the samples as numpy
  floats, for which a division by zero yields an infinity or a NaN where a Python float
  raises; like every infinity and NaN this is outside the model, which treats the samples
  as Python floats.
\<close>

record constraints =
  c_range :: "real option"
  c_min :: "real option"
  c_max :: "real option"
  c_max_velocity :: "real option"
  c_min_efficiency :: "real option"
  c_max_temp :: "real option"

definition objective_score :: "string \<Rightarrow> CombustionResults \<Rightarrow> real" where
  "objective_score objective results =
     (if objective = ''efficiency'' then real_efficiency results
      else if objective = ''temperature'' then - \<bar>outlet_gas_temp results - 1273\<bar>
      else if objective = ''velocity'' then - \<bar>gas_velocity results - 15\<bar>
      else real_efficiency results)"

definition constraints_valid :: "constraints \<Rightarrow> CombustionResults \<Rightarrow> bool" where
  "constraints_valid cs results =
     (let valid = True;
          valid = (case c_max_velocity cs of
                     Some m \<Rightarrow> if gas_velocity results > m then False else valid
                   | None \<Rightarrow> valid);
          valid = (case c_min_efficiency cs of
                     Some m \<Rightarrow> if real_efficiency results < m then False else valid
                   | None \<Rightarrow> valid);
          valid = (case c_max_temp cs of
                     Some m \<Rightarrow> if outlet_gas_temp results > m then False else valid
                   | None \<Rightarrow> valid)
      in valid)"

definition score_gt :: "real \<Rightarrow> real option \<Rightarrow> bool" where
  "score_gt score best_score = (case best_score of None \<Rightarrow> True | Some b \<Rightarrow> score > b)"

fun optimize_loop ::
  "((real \<Rightarrow> real) \<Rightarrow> real \<Rightarrow> real) \<Rightarrow> BiomassInput \<Rightarrow> string \<Rightarrow> string \<Rightarrow> constraints
     \<Rightarrow> real list \<Rightarrow> real \<times> real option \<Rightarrow> error + (BiomassInput \<times> real \<times> real option)" where
  "optimize_loop fsolve inp name objective cs [] best = Inr (inp, best)"
| "optimize_loop fsolve inp name objective cs (v # rest) (best_value, best_score) =
     ebind (setattr_input inp name (PyFloat v)) (\<lambda>inp'.
     ebind (calculate_all fsolve inp') (\<lambda>results.
       let score = objective_score objective results;
           valid = constraints_valid cs results
       in if valid \<and> score_gt score best_score
          then optimize_loop fsolve inp' name objective cs rest (v, Some score)
          else optimize_loop fsolve inp' name objective cs rest (best_value, best_score)))"

text \<open>
  The improvement of the returned dictionary:
  \<^verbatim>\<open>best_score - getattr(self.calculator.calculate_all(), objective)\<close>.
\<close>

definition improvement_of :: "real option \<Rightarrow> CombustionResults \<Rightarrow> string \<Rightarrow> error + real option" where
  "improvement_of best_score base_results objective =
     ebind (getattr_results base_results objective) (\<lambda>x.
       Inr (case best_score of None \<Rightarrow> None | Some b \<Rightarrow> Some (b - x)))"

record optimization_outcome =
  opt_parameter :: string
  optimal_value :: real
  original_value :: real
  improvement :: "real option"
  opt_results :: CombustionResults

definition optimize_parameter ::
  "((real \<Rightarrow> real) \<Rightarrow> real \<Rightarrow> real) \<Rightarrow> BiomassInput \<Rightarrow> string \<Rightarrow> string \<Rightarrow> constraints
     \<Rightarrow> error + optimization_outcome" where
  "optimize_parameter fsolve inp name objective cs =
     ebind (getattr_input inp name) (\<lambda>v.
     ebind (py_num v) (\<lambda>base_value.
       let search_range = (case c_range cs of Some r \<Rightarrow> r | None \<Rightarrow> 50);
           default_min = base_value * (1 - search_range / 100);
           min_val = (case c_min cs of Some m \<Rightarrow> m | None \<Rightarrow> default_min);
           default_max = base_value * (1 + search_range / 100);
           max_val = (case c_max cs of Some m \<Rightarrow> m | None \<Rightarrow> default_max);
           n_points = 100;
           vals = linspace min_val max_val n_points
       in ebind (optimize_loop fsolve inp name objective cs vals (base_value, None))
            (\<lambda>(inp1, best_value, best_score).
          ebind (setattr_input inp1 name (PyFloat base_value)) (\<lambda>inp2.
          ebind (setattr_input inp2 name (PyFloat best_value)) (\<lambda>inp3.
          ebind (calculate_all fsolve inp3) (\<lambda>optimal_results.
          ebind (setattr_input inp3 name (PyFloat base_value)) (\<lambda>inp4.
          ebind (calculate_all fsolve inp4) (\<lambda>base_results.
          ebind (improvement_of best_score base_results objective) (\<lambda>imp.
            Inr \<lparr>opt_parameter = name, optimal_value = best_value,
                 original_value = base_value, improvement = imp,
                 opt_results = optimal_results\<rparr>)))))))))"

text \<open>
  The reference input: the defaults of \<^verbatim>\<open>BiomassInput\<close> (sugar-cane bagasse at the
  altitude of Bogota), with the three required strings as \<^verbatim>\<open>test_complete_calculation\<close>
  gives them. The accented letters of the two default strings are their UTF-8 bytes.
\<close>

definition reference_input :: BiomassInput where
  "reference_input =
     \<lparr>project_code = PyStr ''TEST-BAGAZO'',
      document_code = PyStr ''DML-TEST'',
      analyst = PyStr ''Engineer Test'',
      city = PyStr (''Bogot'' @ [CHR 0xC3, CHR 0xA1]),
      altitude = 2640,
      relative_humidity = 75,
      dry_bulb_temp = 15,
      biomass_type = PyStr (''Bagazo de ca'' @ [CHR 0xC3, CHR 0xB1] @ ''a''),
      reported_pci = 11367,
      furnace_efficiency = 90,
      excess_air = 30,
      duct_diameter = 30,
      carbon = 50.29,
      hydrogen = 5.82,
      oxygen = 42.94,
      nitrogen = 0.22,
      sulfur = 0.08,
      ash = 0.66,
      moisture = 35.09,
      flow_rate = 3000\<rparr>"

section \<open>The Colebrook-White relation, for comparison\<close>

text \<open>
  The docstring of \<^verbatim>\<open>colebrook_friction_factor\<close> and the specification call its loop an
  iteration on the Colebrook-White relation. In its standard form that relation is
  \<open>1 / sqrt f = - 2 log10 ((roughness / D) / 3.7 + 2.51 / (Re sqrt f))\<close>. The two
  definitions below are not a translation of the source: they are the same loop (seed,
  ten passes, tolerance, last estimate returned) with that relation as its update, the
  reference that the loop of the source is compared with.
\<close>

definition colebrook_white_f_new :: "real \<Rightarrow> real \<Rightarrow> real \<Rightarrow> real \<Rightarrow> error + real" where
  "colebrook_white_f_new Re' diameter roughness f =
     ebind (py_div roughness diameter) (\<lambda>relative_roughness.
     ebind (math_sqrt f) (\<lambda>s.
     ebind (py_div 2.51 (Re' * s)) (\<lambda>t.
     ebind (math_log10 (relative_roughness / 3.7 + t)) (\<lambda>l.
     ebind (math_pow (- 2 * l) 2) (\<lambda>p.
       py_div 1 p)))))"

fun colebrook_white_loop :: "nat \<Rightarrow> real \<Rightarrow> real \<Rightarrow> real \<Rightarrow> real \<Rightarrow> error + real" where
  "colebrook_white_loop 0 Re' diameter roughness f = Inr f"
| "colebrook_white_loop (Suc n) Re' diameter roughness f =
     ebind (colebrook_white_f_new Re' diameter roughness f) (\<lambda>f_new.
       if \<bar>f_new - f\<bar> < 1 / 10 ^ 6 then Inr f
       else colebrook_white_loop n Re' diameter roughness f_new)"

section \<open>Quantities of the proofs\<close>

text \<open>
  For the loop of the friction factor: the argument of the logarithm in one pass, the new
  estimate as a plain value, and the invariant that keeps the argument above 1 (so that
  neither the logarithm nor the division raises). When the relative roughness is below 1
  the invariant bounds the argument from both sides.
\<close>

definition colebrook_arg :: "real \<Rightarrow> real \<Rightarrow> real \<Rightarrow> real \<Rightarrow> real" where
  "colebrook_arg Re' D r f = r / D + 3.7 * Re' * sqrt f"

definition colebrook_update :: "real \<Rightarrow> real \<Rightarrow> real \<Rightarrow> real \<Rightarrow> real" where
  "colebrook_update Re' D r f = 1 / (- 2 * log 10 (colebrook_arg Re' D r f)) ^ 2"

definition colebrook_inv :: "real \<Rightarrow> real \<Rightarrow> real \<Rightarrow> real \<Rightarrow> bool" where
  "colebrook_inv Re' D r f \<longleftrightarrow>
     0 < f \<and> (1 \<le> r / D
             \<or> (10 \<le> colebrook_arg Re' D r f \<and> colebrook_arg Re' D r f \<le> 1 + 3.7 * Re' / 2))"

section \<open>Basic facts about the error monad and the partial operations\<close>

lemma ebind_Inr: "ebind (Inr x) f = f x"
  by (simp add: ebind_def)

lemma ebind_Inl: "ebind (Inl e) f = Inl e"
  by (simp add: ebind_def)

lemma py_div_ok: "b \<noteq> 0 \<Longrightarrow> py_div a b = Inr (a / b)"
  by (simp add: py_div_def)

lemma math_pow_pos: "0 < x \<Longrightarrow> math_pow x y = Inr (x powr y)"
  by (simp add: math_pow_def)

lemma powr_nonpos_ge_one:
  fixes x e :: real
  assumes "0 < x" "x \<le> 1" "e \<le> 0"
  shows "1 \<le> x powr e"
proof -
  have "ln x \<le> 0" using assms by simp
  then have "0 \<le> e * ln x" using assms by (simp add: mult_nonpos_nonpos)
  then have "1 \<le> exp (e * ln x)" by simp
  then show ?thesis using assms by (simp add: powr_def)
qed

lemma powr_neg_gt_one:
  fixes x a :: real
  assumes "0 < x" "x < 1" "0 < a"
  shows "1 < x powr (- a)" and "x powr a < 1"
proof -
  show lt: "x powr a < 1" using assms by (simp add: powr01_less_one)
  have pos: "0 < x powr a" using assms by simp
  have "x powr (- a) = inverse (x powr a)" by (simp add: powr_minus)
  then show "1 < x powr (- a)" using lt pos by (simp add: one_less_inverse_iff)
qed

section \<open>The heating value\<close>

lemma dulong_total_zero:
  "c + h + ox + s + a = 0 \<Longrightarrow> dulong_heating_value c h ox s a m = Inl ZeroDivisionError"
  by (simp add: dulong_heating_value_def Let_def py_div_def ebind_def)

lemma dulong_renormalized:
  assumes "c + h + ox + s + a \<noteq> 0" "c + h + ox + s + a \<noteq> 100"
  shows "dulong_heating_value c h ox s a m =
     Inr \<lparr>PCS = 338.2 * (c * 100 / (c + h + ox + s + a))
                 + 1442.8 * (h * 100 / (c + h + ox + s + a)
                             - ox * 100 / (c + h + ox + s + a) / 8)
                 + 94.2 * (s * 100 / (c + h + ox + s + a)),
            PCI = 338.2 * (c * 100 / (c + h + ox + s + a))
                 + 1442.8 * (h * 100 / (c + h + ox + s + a)
                             - ox * 100 / (c + h + ox + s + a) / 8)
                 + 94.2 * (s * 100 / (c + h + ox + s + a))
                 - 2442 * (9 * (h * 100 / (c + h + ox + s + a)) + m) / 100,
            water_from_combustion = 9 * (h * 100 / (c + h + ox + s + a)) + m\<rparr>"
  unfolding dulong_heating_value_def Let_def HV_WATER_def
  by (simp only: assms py_div_ok ebind_Inr if_True not_False_eq_True prod.case)

lemma dulong_exact:
  assumes "c + h + ox + s + a = 100"
  shows "dulong_heating_value c h ox s a m =
     Inr \<lparr>PCS = 338.2 * c + 1442.8 * (h - ox / 8) + 94.2 * s,
            PCI = 338.2 * c + 1442.8 * (h - ox / 8) + 94.2 * s - 2442 * (9 * h + m) / 100,
            water_from_combustion = 9 * h + m\<rparr>"
  unfolding dulong_heating_value_def Let_def HV_WATER_def
  by (simp only: assms ebind_Inr if_False not_True_eq_False prod.case simp_thms)

lemma dulong_returns:
  assumes "c + h + ox + s + a \<noteq> 0"
  shows "\<exists>r. dulong_heating_value c h ox s a m = Inr r"
  using assms
  by (simp add: dulong_heating_value_def Let_def py_div_def ebind_def)

text \<open>
  Claim C3. For every composition with hydrogen and moisture not negative and a positive
  sum of carbon, hydrogen, oxygen, sulfur and ash, \<open>dulong_heating_value\<close> returns, and
  its PCS is at least its PCI, where PCS is
  \<open>338.2 C + 1442.8 (H - O / 8) + 94.2 S\<close> on the fractions as the function rescales
  them (by \<open>100 / total\<close> unless the total is 100) and PCI is
  \<open>PCS - 2442 (9 H + moisture) / 100\<close>.
\<close>

theorem dulong_PCS_ge_PCI:
  assumes "0 \<le> h" "0 \<le> m" "0 < c + h + ox + s + a"
  shows "\<exists>r. dulong_heating_value c h ox s a m = Inr r \<and> PCI r \<le> PCS r
     \<and> (let t = c + h + ox + s + a;
             c' = (if t \<noteq> 100 then c * 100 / t else c);
             h' = (if t \<noteq> 100 then h * 100 / t else h);
             ox' = (if t \<noteq> 100 then ox * 100 / t else ox);
             s' = (if t \<noteq> 100 then s * 100 / t else s)
         in PCS r = 338.2 * c' + 1442.8 * (h' - ox' / 8) + 94.2 * s'
            \<and> PCI r = PCS r - 2442 * (9 * h' + m) / 100)"
proof (cases "c + h + ox + s + a = 100")
  case True
  have "0 \<le> 2442 * (9 * h + m) / 100" using assms by simp
  then show ?thesis
    unfolding dulong_exact[OF True] Let_def using True by simp
next
  case False
  have nz: "c + h + ox + s + a \<noteq> 0" using assms by simp
  have "0 \<le> h * 100 / (c + h + ox + s + a)" using assms by simp
  then have "0 \<le> 2442 * (9 * (h * 100 / (c + h + ox + s + a)) + m) / 100"
    using assms by simp
  then show ?thesis
    unfolding dulong_renormalized[OF nz False] Let_def using False by simp
qed

theorem dulong_PCS_ge_PCI_witness:
  "(0::real) \<le> 5.82 \<and> (0::real) \<le> 35.09 \<and> (0::real) < 50.29 + 5.82 + 42.94 + 0.08 + 0.66
   \<and> (\<exists>r. dulong_heating_value 50.29 5.82 42.94 0.08 0.66 35.09 = Inr r \<and> PCI r \<le> PCS r)"
proof -
  have h: "(0::real) \<le> 5.82" "(0::real) \<le> 35.09"
    "(0::real) < 50.29 + 5.82 + 42.94 + 0.08 + 0.66"
    by simp_all
  from dulong_PCS_ge_PCI[OF h] obtain r where
    "dulong_heating_value 50.29 5.82 42.94 0.08 0.66 35.09 = Inr r" "PCI r \<le> PCS r"
    by blast
  then show ?thesis using h by blast
qed

text \<open>
  Claim C10. When carbon + hydrogen + oxygen + sulfur + ash is 0, the rescaling inside
  \<open>dulong_heating_value\<close> divides by that total and the call raises ZeroDivisionError.
  For every other total different from 100, also one within 0.5 of 100, the heating
  values are computed from the fractions rescaled by \<open>100 / total\<close>.
\<close>

theorem dulong_zero_total_and_renormalization:
  "(c + h + ox + s + a = 0 \<longrightarrow> dulong_heating_value c h ox s a m = Inl ZeroDivisionError)
   \<and> (c + h + ox + s + a \<noteq> 0 \<and> c + h + ox + s + a \<noteq> 100 \<longrightarrow>
        dulong_heating_value c h ox s a m =
          Inr \<lparr>PCS = 338.2 * (c * 100 / (c + h + ox + s + a))
                      + 1442.8 * (h * 100 / (c + h + ox + s + a)
                                  - ox * 100 / (c + h + ox + s + a) / 8)
                      + 94.2 * (s * 100 / (c + h + ox + s + a)),
                 PCI = 338.2 * (c * 100 / (c + h + ox + s + a))
                      + 1442.8 * (h * 100 / (c + h + ox + s + a)
                                  - ox * 100 / (c + h + ox + s + a) / 8)
                      + 94.2 * (s * 100 / (c + h + ox + s + a))
                      - 2442 * (9 * (h * 100 / (c + h + ox + s + a)) + m) / 100,
                 water_from_combustion = 9 * (h * 100 / (c + h + ox + s + a)) + m\<rparr>)"
  using dulong_total_zero dulong_renormalized by blast

text \<open>
  The witness: the all-zero composition raises, and the reference bagasse, whose five
  fractions add up to 99.79, is rescaled.
\<close>

theorem dulong_zero_total_and_renormalization_witness:
  "((0::real) + 0 + 0 + 0 + 0 = 0
      \<and> dulong_heating_value 0 0 0 0 0 35.09 = Inl ZeroDivisionError)
   \<and> ((50.29::real) + 5.82 + 42.94 + 0.08 + 0.66 \<noteq> 0
      \<and> (50.29::real) + 5.82 + 42.94 + 0.08 + 0.66 \<noteq> 100
      \<and> \<bar>(50.29::real) + 5.82 + 42.94 + 0.08 + 0.66 - 100\<bar> \<le> 0.5
      \<and> dulong_heating_value 50.29 5.82 42.94 0.08 0.66 35.09 =
          Inr \<lparr>PCS = 338.2 * (50.29 * 100 / 99.79)
                      + 1442.8 * (5.82 * 100 / 99.79 - 42.94 * 100 / 99.79 / 8)
                      + 94.2 * (0.08 * 100 / 99.79),
                 PCI = 338.2 * (50.29 * 100 / 99.79)
                      + 1442.8 * (5.82 * 100 / 99.79 - 42.94 * 100 / 99.79 / 8)
                      + 94.2 * (0.08 * 100 / 99.79)
                      - 2442 * (9 * (5.82 * 100 / 99.79) + 35.09) / 100,
                 water_from_combustion = 9 * (5.82 * 100 / 99.79) + 35.09\<rparr>)"
  using dulong_zero_total_and_renormalization[of 0 0 0 0 0 "35.09"]
        dulong_zero_total_and_renormalization[of "50.29" "5.82" "42.94" "0.08" "0.66" "35.09"]
  by simp

section \<open>The barometric pressure\<close>

lemma pressure_altitude_troposphere:
  assumes "h < 11000"
  shows "pressure_altitude h =
     Inr (101.325 * (1 - (0.0065 * h) / 288.15) powr (- (9.81 * 0.02896) / (8.314 * 0.0065)))"
proof -
  have "0 < 1 - (0.0065 * h) / 288.15" using assms by simp
  then show ?thesis
    unfolding pressure_altitude_def Let_def
    using assms by (simp only: math_pow_pos ebind_Inr if_True)
qed

lemma pressure_altitude_above:
  assumes "11000 \<le> h"
  shows "pressure_altitude h = Inr (101.325 * exp (- h / 8500))"
  using assms by (simp add: pressure_altitude_def Let_def)

text \<open>
  Below 11000 m the function raises the temperature ratio to the power
  \<open>- g M / (R L)\<close>, the negative of the exponent of the standard atmosphere. Above sea
  level the ratio is below 1, so the value the code returns is above the pressure at sea
  level and the value of the standard formula is below it.
\<close>

lemma pressure_altitude_above_sea_level:
  assumes "0 < h" "h < 11000"
  shows "\<exists>p. pressure_altitude h = Inr p \<and> 101.325 < p
     \<and> 101.325 * (1 - (0.0065 * h) / 288.15) powr ((9.81 * 0.02896) / (8.314 * 0.0065)) < 101.325"
proof -
  let ?x = "1 - (0.0065 * h) / 288.15 :: real"
  let ?a = "(9.81 * 0.02896) / (8.314 * 0.0065) :: real"
  have x: "0 < ?x" "?x < 1" using assms by simp_all
  have a: "0 < ?a" by simp
  have e: "- (9.81 * 0.02896) / (8.314 * 0.0065) = - ?a" by simp
  have 1: "1 < ?x powr (- ?a)" and 2: "?x powr ?a < 1"
    using powr_neg_gt_one[OF x a] by blast+
  have A: "pressure_altitude h = Inr (101.325 * ?x powr (- ?a))"
    using pressure_altitude_troposphere[OF assms(2)] unfolding e .
  have B: "101.325 < 101.325 * ?x powr (- ?a)" using 1 by simp
  have C: "101.325 * ?x powr ?a < 101.325" using 2 by simp
  show ?thesis using A B C by blast
qed

text \<open>
  Claim C2 (the code at the failing input). At 2640 m, the default altitude, the code
  returns \<open>P0\<close> times the temperature ratio to the power \<open>- g M / (R L)\<close>, which is more
  than the 101.325 kPa of sea level; the formula of the claim, with the power
  \<open>g M / (R L)\<close>, gives less than 101.325 kPa there.
\<close>

theorem pressure_altitude_2640:
  "pressure_altitude 2640 =
     Inr (101.325 * (1 - (0.0065 * 2640) / 288.15) powr (- (9.81 * 0.02896) / (8.314 * 0.0065)))
   \<and> (101.325::real)
       < 101.325 * (1 - (0.0065 * 2640) / 288.15) powr (- (9.81 * 0.02896) / (8.314 * 0.0065))
   \<and> 101.325 * (1 - (0.0065 * 2640) / 288.15) powr ((9.81 * 0.02896) / (8.314 * 0.0065))
       < (101.325::real)"
proof -
  let ?x = "1 - (0.0065 * 2640) / 288.15 :: real"
  let ?a = "(9.81 * 0.02896) / (8.314 * 0.0065) :: real"
  have x: "0 < ?x" "?x < 1" by simp_all
  have a: "0 < ?a" by simp
  have e: "- (9.81 * 0.02896) / (8.314 * 0.0065) = - ?a" by simp
  have 1: "1 < ?x powr (- ?a)" and 2: "?x powr ?a < 1"
    using powr_neg_gt_one[OF x a] by blast+
  have A: "pressure_altitude 2640
      = Inr (101.325 * ?x powr (- (9.81 * 0.02896) / (8.314 * 0.0065)))"
    by (rule pressure_altitude_troposphere) simp
  have B: "101.325 < 101.325 * ?x powr (- ?a)" using 1 by simp
  have C: "101.325 * ?x powr ?a < 101.325" using 2 by simp
  show ?thesis using A B C unfolding e by blast
qed

section \<open>The friction factor\<close>

lemma math_pow_2: "math_pow x 2 = Inr (x ^ 2)"
proof -
  consider "0 < x" | "x = 0" | "x < 0" by linarith
  then show ?thesis
  proof cases
    case 1 then show ?thesis by (simp add: math_pow_def)
  next
    case 2 then show ?thesis by (simp add: math_pow_def)
  next
    case 3 then show ?thesis by (simp add: math_pow_def)
  qed
qed

lemma colebrook_f_new_value:
  assumes "D \<noteq> 0" "0 \<le> f" "1 < r / D + 3.7 * Re' * sqrt f"
  shows "colebrook_f_new Re' D r f = Inr (1 / (- 2 * log 10 (r / D + 3.7 * Re' * sqrt f)) ^ 2)"
proof -
  let ?x = "r / D + 3.7 * Re' * sqrt f"
  have l: "0 < log 10 ?x" using assms by simp
  then have nz: "(- 2 * log 10 ?x) ^ 2 \<noteq> 0" by simp
  have pos: "\<not> ?x \<le> 0" using assms by simp
  have nn: "\<not> f < 0" using assms by simp
  show ?thesis
    unfolding colebrook_f_new_def Let_def math_sqrt_def math_log10_def
    by (simp only: py_div_ok[OF assms(1)] ebind_Inr nn pos if_False math_pow_2 py_div_ok[OF nz])
qed

lemma ten_powr_bound:
  fixes y :: real
  assumes "8 \<le> y"
  shows "1 + 10 * y \<le> 10 powr y"
proof -
  have "exp (2::real) = exp 1 * exp 1" by (simp flip: exp_add)
  also have "\<dots> \<le> 3 * 3" by (intro mult_mono exp_le) simp_all
  finally have "exp (2::real) \<le> 10" by simp
  then have ln10: "2 \<le> ln (10::real)" by (simp add: ln_ge_iff)
  have "1 + 10 * y \<le> (1 + y) ^ 2" using assms by (simp add: power2_eq_square algebra_simps) 
  also have "\<dots> \<le> (exp y) ^ 2" using assms by (intro power_mono) simp_all
  also have "\<dots> = exp (2 * y)" by (simp add: power2_eq_square flip: exp_add)
  also have "\<dots> \<le> exp (y * ln 10)" using ln10 assms by (simp add: mult.commute mult_left_mono)
  also have "\<dots> = 10 powr y" by (simp add: powr_def)
  finally show ?thesis .
qed


lemma colebrook_inv_arg:
  assumes "0 < D" "0 \<le> r" "2300 \<le> Re'" "colebrook_inv Re' D r f"
  shows "1 < colebrook_arg Re' D r f"
proof -
  have f: "0 < f" using assms by (simp add: colebrook_inv_def)
  then have "0 < sqrt f" by simp
  then have "0 < 3.7 * Re' * sqrt f" using assms by simp
  then show ?thesis using assms(4) unfolding colebrook_inv_def colebrook_arg_def by linarith
qed

lemma colebrook_f_new_inv:
  assumes "0 < D" "0 \<le> r" "2300 \<le> Re'" "colebrook_inv Re' D r f"
  shows "colebrook_f_new Re' D r f = Inr (colebrook_update Re' D r f)"
proof -
  have a: "0 \<le> f" using assms by (simp add: colebrook_inv_def)
  have b: "D \<noteq> 0" using assms by simp
  have c: "1 < r / D + 3.7 * Re' * sqrt f"
    using colebrook_inv_arg[OF assms] unfolding colebrook_arg_def .
  show ?thesis
    unfolding colebrook_update_def colebrook_arg_def by (rule colebrook_f_new_value[OF b a c])
qed

lemma colebrook_update_sqrt:
  assumes "1 < colebrook_arg Re' D r f"
  shows "0 < colebrook_update Re' D r f"
    and "sqrt (colebrook_update Re' D r f) = 1 / (2 * log 10 (colebrook_arg Re' D r f))"
proof -
  let ?L = "log 10 (colebrook_arg Re' D r f)"
  have L: "0 < ?L" using assms by simp
  show "0 < colebrook_update Re' D r f"
    unfolding colebrook_update_def using L by simp
  have "sqrt (colebrook_update Re' D r f) = 1 / \<bar>- 2 * ?L\<bar>"
    unfolding colebrook_update_def by (simp add: real_sqrt_divide del: mult_minus_left)
  also have "\<dots> = 1 / (2 * ?L)" using L by simp
  finally show "sqrt (colebrook_update Re' D r f) = 1 / (2 * ?L)" .
qed

lemma colebrook_inv_step:
  assumes "0 < D" "0 \<le> r" "2300 \<le> Re'" "colebrook_inv Re' D r f"
  shows "colebrook_inv Re' D r (colebrook_update Re' D r f)"
proof -
  let ?x = "colebrook_arg Re' D r f"
  let ?L = "log 10 ?x"
  let ?K = "3.7 * Re'"
  have x: "1 < ?x" by (rule colebrook_inv_arg[OF assms])
  note u = colebrook_update_sqrt[OF x]
  show ?thesis
  proof (cases "1 \<le> r / D")
    case True
    then show ?thesis using u(1) by (simp add: colebrook_inv_def)
  next
    case False
    then have b: "10 \<le> ?x" "?x \<le> 1 + ?K / 2"
      using assms(4) by (simp_all add: colebrook_inv_def)
    have q: "0 \<le> r / D" "r / D < 1" using assms False by simp_all
    have K: "8510 \<le> ?K" using assms by simp
    have L1: "1 \<le> ?L" using b(1) by simp
    have "1 + 10 * (?K / 20) \<le> 10 powr (?K / 20)"
      by (rule ten_powr_bound) (use K in simp)
    then have h: "?x \<le> 10 powr (?K / 20)" using b(2) by simp
    have L2: "?L \<le> ?K / 20"
    proof -
      have "1 < (10::real)" by simp
      moreover have "0 < ?x" using x by simp
      ultimately show ?thesis using h by (simp only: log_le_iff)
    qed
    have arg': "colebrook_arg Re' D r (colebrook_update Re' D r f) = r / D + ?K / (2 * ?L)"
      unfolding colebrook_arg_def[of _ _ _ "colebrook_update Re' D r f"] u(2) by simp
    have "?K / (2 * ?L) \<le> ?K / (2 * 1)"
      using L1 K by (intro divide_left_mono) simp_all
    then have up: "r / D + ?K / (2 * ?L) \<le> 1 + ?K / 2" using q by simp
    have "?K / (2 * (?K / 20)) \<le> ?K / (2 * ?L)"
      using L1 L2 K by (intro divide_left_mono) simp_all
    moreover have "?K / (2 * (?K / 20)) = 10" using K by simp
    ultimately have lo: "10 \<le> r / D + ?K / (2 * ?L)" using q by simp
    show ?thesis
      unfolding colebrook_inv_def arg' using u(1) lo up by simp
  qed
qed

lemma colebrook_inv_seed:
  assumes "0 < D" "0 \<le> r" "2300 \<le> Re'"
  shows "colebrook_inv Re' D r 0.02"
proof (cases "1 \<le> r / D")
  case True
  then show ?thesis by (simp add: colebrook_inv_def)
next
  case False
  have q: "0 \<le> r / D" "r / D < 1" using assms False by simp_all
  have "(0.1::real) ^ 2 \<le> 0.02" by (simp add: power2_eq_square)
  then have s1: "0.1 \<le> sqrt (0.02::real)" by (rule real_le_rsqrt)
  have "(0.02::real) \<le> 0.5 ^ 2" by (simp add: power2_eq_square)
  then have s2: "sqrt (0.02::real) \<le> 0.5" by (intro real_le_lsqrt) simp_all
  have K: "8510 \<le> 3.7 * Re'" using assms by simp
  have K0: "0 \<le> 3.7 * Re'" using K by linarith
  have "3.7 * Re' * 0.1 \<le> 3.7 * Re' * sqrt 0.02"
    using s1 K0 by (rule mult_left_mono)
  moreover have "10 \<le> 3.7 * Re' * 0.1" using assms by simp
  ultimately have lo: "10 \<le> r / D + 3.7 * Re' * sqrt 0.02" using q by linarith
  have "3.7 * Re' * sqrt 0.02 \<le> 3.7 * Re' * 0.5"
    using s2 K0 by (rule mult_left_mono)
  moreover have "3.7 * Re' * 0.5 = 3.7 * Re' / 2" by simp
  ultimately have up: "r / D + 3.7 * Re' * sqrt 0.02 \<le> 1 + 3.7 * Re' / 2"
    using q by linarith
  show ?thesis unfolding colebrook_inv_def colebrook_arg_def using lo up by simp
qed


lemma colebrook_loop_iterate:
  assumes "0 < D" "0 \<le> r" "2300 \<le> Re'" "colebrook_inv Re' D r f"
  shows "\<exists>k\<le>n. \<exists>v. colebrook_loop n Re' D r f = Inr v
           \<and> colebrook_iterate k Re' D r f = Inr v
           \<and> (k < n \<longrightarrow> (\<exists>w. colebrook_f_new Re' D r v = Inr w \<and> \<bar>w - v\<bar> < 1 / 10 ^ 6))
           \<and> (\<forall>j<k. \<exists>u w. colebrook_iterate j Re' D r f = Inr u
                   \<and> colebrook_f_new Re' D r u = Inr w \<and> \<not> \<bar>w - u\<bar> < 1 / 10 ^ 6)"
  using assms(4)
proof (induction n arbitrary: f)
  case 0
  then show ?case by simp
next
  case (Suc n)
  let ?w = "colebrook_update Re' D r f"
  have step: "colebrook_f_new Re' D r f = Inr ?w"
    by (rule colebrook_f_new_inv[OF assms(1-3) Suc.prems])
  have inv': "colebrook_inv Re' D r ?w"
    by (rule colebrook_inv_step[OF assms(1-3) Suc.prems])
  show ?case
  proof (cases "\<bar>?w - f\<bar> < 1 / 10 ^ 6")
    case True
    have "colebrook_loop (Suc n) Re' D r f = Inr f"
      using True by (simp add: step ebind_Inr)
    moreover have "colebrook_iterate 0 Re' D r f = Inr f" by simp
    ultimately show ?thesis using step True by blast
  next
    case False
    from Suc.IH[OF inv'] obtain k v where k: "k \<le> n"
      and l: "colebrook_loop n Re' D r ?w = Inr v"
      and i: "colebrook_iterate k Re' D r ?w = Inr v"
      and c: "k < n \<longrightarrow> (\<exists>w. colebrook_f_new Re' D r v = Inr w \<and> \<bar>w - v\<bar> < 1 / 10 ^ 6)"
      and b: "\<forall>j<k. \<exists>u w. colebrook_iterate j Re' D r ?w = Inr u
                   \<and> colebrook_f_new Re' D r u = Inr w \<and> \<not> \<bar>w - u\<bar> < 1 / 10 ^ 6"
      by blast
    have l': "colebrook_loop (Suc n) Re' D r f = Inr v"
      using False l by (simp add: step ebind_Inr)
    have i': "colebrook_iterate (Suc k) Re' D r f = Inr v"
      using i by (simp add: step ebind_Inr)
    have b': "\<exists>u w. colebrook_iterate j Re' D r f = Inr u
                   \<and> colebrook_f_new Re' D r u = Inr w \<and> \<not> \<bar>w - u\<bar> < 1 / 10 ^ 6"
      if "j < Suc k" for j
    proof (cases j)
      case 0
      then show ?thesis using step False by simp
    next
      case (Suc j')
      then have "j' < k" using that by simp
      then show ?thesis using b Suc by (simp add: step ebind_Inr)
    qed
    have "Suc k \<le> Suc n" using k by simp
    moreover have "Suc k < Suc n \<longrightarrow>
        (\<exists>w. colebrook_f_new Re' D r v = Inr w \<and> \<bar>w - v\<bar> < 1 / 10 ^ 6)"
      using c by simp
    ultimately show ?thesis using l' i' b' by blast
  qed
qed

text \<open>
  What the function does, for every diameter \<open>D > 0\<close>, Reynolds number \<open>Re > 0\<close> and
  roughness \<open>r \<ge> 0\<close>: below 2300 it returns \<open>64 / Re\<close>; from 2300 on it returns,
  without raising, the estimate after \<open>k \<le> 10\<close> passes of its own loop body started at
  0.02, where every earlier pass changed the estimate by at least a millionth and, when
  \<open>k < 10\<close>, the next pass changes it by less (the last estimate is returned, also when
  ten passes did not converge).
\<close>

theorem colebrook_friction_factor_branches:
  assumes "0 < D" "0 < Re'" "0 \<le> r"
  shows "(Re' < 2300 \<longrightarrow> colebrook_friction_factor Re' D r = Inr (64 / Re'))
       \<and> (2300 \<le> Re' \<longrightarrow>
            (\<exists>k\<le>10. \<exists>v. colebrook_friction_factor Re' D r = Inr v
               \<and> colebrook_iterate k Re' D r 0.02 = Inr v
               \<and> (k < 10 \<longrightarrow>
                    (\<exists>w. colebrook_f_new Re' D r v = Inr w \<and> \<bar>w - v\<bar> < 1 / 10 ^ 6))
               \<and> (\<forall>j<k. \<exists>u w. colebrook_iterate j Re' D r 0.02 = Inr u
                     \<and> colebrook_f_new Re' D r u = Inr w \<and> \<not> \<bar>w - u\<bar> < 1 / 10 ^ 6)))"
proof (intro conjI impI)
  assume "Re' < 2300"
  then show "colebrook_friction_factor Re' D r = Inr (64 / Re')"
    using assms by (simp add: colebrook_friction_factor_def py_div_def)
next
  assume t: "2300 \<le> Re'"
  have "colebrook_friction_factor Re' D r = colebrook_loop 10 Re' D r 0.02"
    using t by (simp add: colebrook_friction_factor_def)
  then show "\<exists>k\<le>10. \<exists>v. colebrook_friction_factor Re' D r = Inr v
               \<and> colebrook_iterate k Re' D r 0.02 = Inr v
               \<and> (k < 10 \<longrightarrow>
                    (\<exists>w. colebrook_f_new Re' D r v = Inr w \<and> \<bar>w - v\<bar> < 1 / 10 ^ 6))
               \<and> (\<forall>j<k. \<exists>u w. colebrook_iterate j Re' D r 0.02 = Inr u
                     \<and> colebrook_f_new Re' D r u = Inr w \<and> \<not> \<bar>w - u\<bar> < 1 / 10 ^ 6)"
    using colebrook_loop_iterate[OF assms(1,3) t colebrook_inv_seed[OF assms(1,3) t], of 10]
    by simp
qed


text \<open>An instance: a laminar and a turbulent Reynolds number for the 30 inch duct.\<close>

theorem colebrook_friction_factor_branches_witness:
  "(0::real) < 0.762 \<and> (0::real) < 1000 \<and> (0::real) \<le> 0.00015 \<and> (1000::real) < 2300
   \<and> colebrook_friction_factor 1000 0.762 0.00015 = Inr (64 / 1000)
   \<and> (0::real) < 2300 \<and> (2300::real) \<le> 2300
   \<and> (\<exists>k\<le>10. \<exists>v. colebrook_friction_factor 2300 0.762 0.00015 = Inr v
          \<and> colebrook_iterate k 2300 0.762 0.00015 0.02 = Inr v)"
proof -
  have d: "(0::real) < 0.762" and r: "(0::real) \<le> 0.00015" by simp_all
  have l: "(0::real) < 1000" and t: "(0::real) < 2300" by simp_all
  have "colebrook_friction_factor 1000 0.762 0.00015 = Inr (64 / 1000)"
    using colebrook_friction_factor_branches[OF d l r] by simp
  moreover have "\<exists>k\<le>10. \<exists>v. colebrook_friction_factor 2300 0.762 0.00015 = Inr v
          \<and> colebrook_iterate k 2300 0.762 0.00015 0.02 = Inr v"
    using colebrook_friction_factor_branches[OF d t r] by blast
  ultimately show ?thesis by simp
qed

text \<open>
  At a Reynolds number of 2300, a 30 inch duct (0.762 m) and the roughness of the
  refractory, every estimate of the loop stays between 1/64 and 1/36.
\<close>

lemma colebrook_2300_step:
  assumes "1 / 64 \<le> f" "f \<le> 1 / 36"
  shows "\<exists>w. colebrook_f_new 2300 0.762 0.00015 f = Inr w \<and> 1 / 64 \<le> w \<and> w \<le> 1 / 36"
proof -
  let ?x = "0.00015 / 0.762 + 3.7 * 2300 * sqrt f :: real"
  let ?L = "log 10 ?x"
  have "(1 / 8 :: real) ^ 2 \<le> f" using assms by (simp add: power2_eq_square)
  then have s1: "1 / 8 \<le> sqrt f" by (rule real_le_rsqrt)
  have "f \<le> (1 / 6 :: real) ^ 2" using assms by (simp add: power2_eq_square)
  then have s2: "sqrt f \<le> 1 / 6" by (intro real_le_lsqrt) simp_all
  have lo: "1000 \<le> ?x" using s1 by simp
  have up: "?x \<le> 10000" using s2 by simp
  have x1: "1 < ?x" using lo by linarith
  have x0: "0 < ?x" using lo by linarith
  have ten: "1 < (10::real)" by simp
  have h3: "(10::real) powr 3 \<le> ?x" using lo by simp
  have L3: "3 \<le> ?L" using le_log_iff[OF ten x0, of 3] h3 by blast
  have h4: "?x \<le> (10::real) powr 4" using up by simp
  have L4: "?L \<le> 4" using log_le_iff[OF ten x0, of 4] h4 by blast
  have f0: "0 \<le> f" using assms by simp
  have v: "colebrook_f_new 2300 0.762 0.00015 f = Inr (1 / (- 2 * ?L) ^ 2)"
    by (rule colebrook_f_new_value) (use f0 x1 in simp_all)
  have sq: "(- 2 * ?L) ^ 2 = 4 * (?L * ?L)" by (simp add: power2_eq_square)
  have "3 * 3 \<le> ?L * ?L" using L3 by (intro mult_mono) simp_all
  then have a: "36 \<le> (- 2 * ?L) ^ 2" unfolding sq by simp
  have "?L * ?L \<le> 4 * 4" using L3 L4 by (intro mult_mono) simp_all
  then have b: "(- 2 * ?L) ^ 2 \<le> 64" unfolding sq by simp
  have pp: "0 < (- 2 * ?L) ^ 2" using a by linarith
  have "1 / 64 \<le> 1 / (- 2 * ?L) ^ 2"
    by (rule frac_le[OF _ _ pp b]) simp_all
  moreover have "1 / (- 2 * ?L) ^ 2 \<le> 1 / 36"
    by (rule frac_le[OF _ _ _ a]) simp_all
  ultimately show ?thesis using v by blast
qed

lemma colebrook_2300_loop:
  assumes "1 / 64 \<le> f" "f \<le> 1 / 36"
  shows "\<exists>v. colebrook_loop n 2300 0.762 0.00015 f = Inr v \<and> 1 / 64 \<le> v \<and> v \<le> 1 / 36"
  using assms
proof (induction n arbitrary: f)
  case 0
  then show ?case by simp
next
  case (Suc n)
  obtain w where w: "colebrook_f_new 2300 0.762 0.00015 f = Inr w" "1 / 64 \<le> w" "w \<le> 1 / 36"
    using colebrook_2300_step[OF Suc.prems] by blast
  show ?case
  proof (cases "\<bar>w - f\<bar> < 1 / 10 ^ 6")
    case True
    have "colebrook_loop (Suc n) 2300 0.762 0.00015 f = Inr f"
      unfolding colebrook_loop.simps w(1) ebind_Inr using True by (simp only: if_True)
    then show ?thesis using Suc.prems by blast
  next
    case False
    have "colebrook_loop (Suc n) 2300 0.762 0.00015 f = colebrook_loop n 2300 0.762 0.00015 w"
      unfolding colebrook_loop.simps w(1) ebind_Inr using False by (simp only: if_False)
    then show ?thesis using Suc.IH[OF w(2,3)] by simp
  qed
qed

text \<open>
  The two branches of the source do not meet at Re = 2300: the value of the turbulent
  branch there is at most 1/36, and the laminar value 64/2300 is more than a millionth
  above it.
\<close>

theorem colebrook_branches_differ_at_2300:
  "\<not> isl (colebrook_friction_factor 2300 0.762 0.00015)
   \<and> 1 / 10 ^ 6 < \<bar>projr (colebrook_friction_factor 2300 0.762 0.00015) - 64 / 2300\<bar>"
proof -
  obtain v where v: "colebrook_loop 10 2300 0.762 0.00015 0.02 = Inr v" "1 / 64 \<le> v" "v \<le> 1 / 36"
    using colebrook_2300_loop[of "0.02" 10] by auto
  have c: "colebrook_friction_factor 2300 0.762 0.00015 = Inr v"
    using v(1) by (simp add: colebrook_friction_factor_def)
  have "1 / 10 ^ 6 < 64 / 2300 - v" using v(3) by simp
  then have "1 / 10 ^ 6 < \<bar>v - 64 / 2300\<bar>" by linarith
  then show ?thesis unfolding c by simp
qed

text \<open>
  At the same Reynolds number, duct and roughness, every estimate of the loop on the
  Colebrook-White relation lies strictly between 1/36 and 1/16.
\<close>

lemma colebrook_white_2300_step:
  assumes "1 / 64 \<le> f" "f \<le> 1 / 16"
  shows "\<exists>w. colebrook_white_f_new 2300 0.762 0.00015 f = Inr w \<and> 1 / 36 < w \<and> w < 1 / 16"
proof -
  let ?t = "2.51 / (2300 * sqrt f) :: real"
  let ?x = "0.00015 / 0.762 / 3.7 + ?t :: real"
  let ?L = "log 10 ?x"
  have "(1 / 8 :: real) ^ 2 \<le> f" using assms by (simp add: power2_eq_square)
  then have s1: "1 / 8 \<le> sqrt f" by (rule real_le_rsqrt)
  have "f \<le> (1 / 4 :: real) ^ 2" using assms by (simp add: power2_eq_square)
  then have s2: "sqrt f \<le> 1 / 4" by (intro real_le_lsqrt) simp_all
  have s0: "0 < sqrt f" using s1 by linarith
  have d1: "0 < 2300 * sqrt f" using s0 by simp
  have d2: "2300 * sqrt f \<le> 575" using s2 by simp
  have d3: "287.5 \<le> 2300 * sqrt f" using s1 by simp
  have t1: "2.51 / 575 \<le> ?t" by (rule frac_le[OF _ _ d1 d2]) simp_all
  have t2: "?t \<le> 2.51 / 287.5" by (rule frac_le[OF _ _ _ d3]) simp_all
  have lo: "1 / 1000 < ?x" using t1 by simp
  have up: "?x < 1 / 100" using t2 by simp
  have x0: "0 < ?x" using lo by linarith
  have ten: "1 < (10::real)" by simp
  have p3: "(10::real) powr (- 3) = 1 / 1000" by (simp add: powr_minus_divide)
  have p2: "(10::real) powr (- 2) = 1 / 100" by (simp add: powr_minus_divide)
  have L3: "- 3 < ?L" using less_log_iff[OF ten x0, of "- 3"] lo unfolding p3 by blast
  have L2: "?L < - 2" using log_less_iff[OF ten x0, of "- 2"] up unfolding p2 by blast
  have f0: "\<not> f < 0" using assms by simp
  have dz: "(0.762::real) \<noteq> 0" by simp
  have rz: "2300 * sqrt f \<noteq> 0" using d1 by simp
  have xp: "\<not> ?x \<le> 0" using x0 by simp
  have sq: "(- 2 * ?L) ^ 2 = 4 * (?L * ?L)" by (simp add: power2_eq_square)
  have "2 * 2 < (- ?L) * (- ?L)" using L2 by (intro mult_strict_mono) simp_all
  then have a: "16 < (- 2 * ?L) ^ 2" unfolding sq by simp
  have "(- ?L) * (- ?L) < 3 * 3" using L2 L3 by (intro mult_strict_mono) simp_all
  then have b: "(- 2 * ?L) ^ 2 < 36" unfolding sq by simp
  have nz: "(- 2 * ?L) ^ 2 \<noteq> 0" using a by linarith
  have v: "colebrook_white_f_new 2300 0.762 0.00015 f = Inr (1 / (- 2 * ?L) ^ 2)"
    unfolding colebrook_white_f_new_def math_sqrt_def math_log10_def
    by (simp only: py_div_ok[OF dz] py_div_ok[OF rz] ebind_Inr f0 xp if_False math_pow_2
        py_div_ok[OF nz])
  have pp: "0 < (- 2 * ?L) ^ 2" using a by linarith
  have "1 / 36 < 1 / (- 2 * ?L) ^ 2"
    by (rule divide_strict_left_mono[OF b]) (use pp in simp_all)
  moreover have "1 / (- 2 * ?L) ^ 2 < 1 / 16"
    by (rule divide_strict_left_mono[OF a]) (use pp in simp_all)
  ultimately show ?thesis using v by blast
qed

lemma colebrook_white_2300_loop:
  assumes "1 / 36 < f" "f < 1 / 16"
  shows "\<exists>v. colebrook_white_loop n 2300 0.762 0.00015 f = Inr v \<and> 1 / 36 < v \<and> v < 1 / 16"
  using assms
proof (induction n arbitrary: f)
  case 0
  then show ?case by simp
next
  case (Suc n)
  have "1 / 64 \<le> f" "f \<le> 1 / 16" using Suc.prems by simp_all
  then obtain w where w: "colebrook_white_f_new 2300 0.762 0.00015 f = Inr w"
      "1 / 36 < w" "w < 1 / 16"
    using colebrook_white_2300_step by blast
  show ?case
  proof (cases "\<bar>w - f\<bar> < 1 / 10 ^ 6")
    case True
    have "colebrook_white_loop (Suc n) 2300 0.762 0.00015 f = Inr f"
      unfolding colebrook_white_loop.simps w(1) ebind_Inr using True by (simp only: if_True)
    then show ?thesis using Suc.prems by blast
  next
    case False
    have "colebrook_white_loop (Suc n) 2300 0.762 0.00015 f
        = colebrook_white_loop n 2300 0.762 0.00015 w"
      unfolding colebrook_white_loop.simps w(1) ebind_Inr using False by (simp only: if_False)
    then show ?thesis using Suc.IH[OF w(2,3)] by simp
  qed
qed

lemma colebrook_white_2300_result:
  "\<exists>v. colebrook_white_loop 10 2300 0.762 0.00015 0.02 = Inr v \<and> 1 / 36 < v \<and> v < 1 / 16"
proof -
  obtain w where w: "colebrook_white_f_new 2300 0.762 0.00015 0.02 = Inr w"
      "1 / 36 < w" "w < 1 / 16"
    using colebrook_white_2300_step[of "0.02"] by auto
  have nc: "\<not> \<bar>w - 0.02\<bar> < 1 / 10 ^ 6" using w(2) by simp
  have ten: "(10::nat) = Suc 9" by simp
  have "colebrook_white_loop 10 2300 0.762 0.00015 0.02
      = colebrook_white_loop 9 2300 0.762 0.00015 w"
    unfolding ten colebrook_white_loop.simps w(1) ebind_Inr using nc by (simp only: if_False)
  then show ?thesis using colebrook_white_2300_loop[OF w(2,3), of 9] by simp
qed

lemma colebrook_2300_result:
  "\<exists>v. colebrook_friction_factor 2300 0.762 0.00015 = Inr v \<and> 1 / 64 \<le> v \<and> v \<le> 1 / 36"
proof -
  obtain v where v: "colebrook_loop 10 2300 0.762 0.00015 0.02 = Inr v" "1 / 64 \<le> v" "v \<le> 1 / 36"
    using colebrook_2300_loop[of "0.02" 10] by auto
  have "colebrook_friction_factor 2300 0.762 0.00015 = Inr v"
    using v(1) by (simp add: colebrook_friction_factor_def)
  then show ?thesis using v by blast
qed

text \<open>
  Claim C4 (the code at the failing input). At Re = 2300, a diameter of 0.762 m and a
  roughness of 0.00015 m the function returns a value of at most 1/36, while at most ten
  fixed-point passes on the Colebrook-White relation from the seed 0.02, with the
  tolerance of a millionth, end above 1/36: what the function returns is not the result
  of the iteration that the claim describes.
\<close>

theorem colebrook_friction_factor_not_colebrook_white:
  "\<not> isl (colebrook_friction_factor 2300 0.762 0.00015)
   \<and> projr (colebrook_friction_factor 2300 0.762 0.00015) \<le> 1 / 36
   \<and> \<not> isl (colebrook_white_loop 10 2300 0.762 0.00015 0.02)
   \<and> 1 / 36 < projr (colebrook_white_loop 10 2300 0.762 0.00015 0.02)
   \<and> colebrook_friction_factor 2300 0.762 0.00015
       \<noteq> colebrook_white_loop 10 2300 0.762 0.00015 0.02"
proof -
  obtain v where v: "colebrook_friction_factor 2300 0.762 0.00015 = Inr v" "v \<le> 1 / 36"
    using colebrook_2300_result by blast
  obtain u where u: "colebrook_white_loop 10 2300 0.762 0.00015 0.02 = Inr u" "1 / 36 < u"
    using colebrook_white_2300_result by blast
  have "v \<noteq> u" using v(2) u(2) by linarith
  then show ?thesis unfolding v(1) u(1) using v(2) u(2) by simp
qed

section \<open>The pipeline\<close>

lemma load_name_oxygen:
  "load_name
     [(''carbon'', c), (''hydrogen'', h), (''sulfur'', s), (''moisture'', m), (''ash'', a),
      (''excess_air_percent'', e), (''moisture_factor'', mf), (''CO2'', x1),
      (''H2O_from_combustion'', x2), (''H2O_from_fuel'', x3), (''H2O_total'', x4),
      (''SO2'', x5)] ''oxygen'' = Inl (NameError ''oxygen'')"
  by (simp add: load_name_def equations_globals_def)

lemma combustion_products_raises:
  "combustion_products c h s m a e = Inl (NameError ''oxygen'')"
  unfolding combustion_products_def Let_def
  by (simp only: load_name_oxygen ebind_Inl)

lemma calculate_stoichiometry_raises:
  "calculate_stoichiometry inp = Inl (NameError ''oxygen'')"
  unfolding calculate_stoichiometry_def
  by (simp only: combustion_products_raises ebind_Inl)

text \<open>No input gets through the pipeline: the third group raises whenever it is reached.\<close>

lemma calculate_all_raises: "isl (calculate_all fsolve inp)"
  unfolding calculate_all_def
  by (cases "calculate_fuel_properties inp"; cases "calculate_air_properties inp")
     (simp_all add: ebind_def calculate_stoichiometry_raises)

lemma calculate_all_NameError:
  assumes "calculate_fuel_properties inp = Inr fuel" "calculate_air_properties inp = Inr air"
  shows "calculate_all fsolve inp = Inl (NameError ''oxygen'')"
  unfolding calculate_all_def
  by (simp only: assms ebind_Inr ebind_Inl calculate_stoichiometry_raises)

text \<open>
  The fifth group, were it reached, raises on its own: the input has no attribute
  \<^verbatim>\<open>reported_PCI\<close>.
\<close>

lemma calculate_energy_balance_raises:
  "calculate_energy_balance fsolve inp fuel stoich mass = Inl (AttributeError ''reported_PCI'')"
  by (simp add: calculate_energy_balance_def getattr_input_def BiomassInput_fields_def
      ebind_def)

lemma calculate_fuel_properties_returns:
  assumes "carbon inp + hydrogen inp + oxygen inp + sulfur inp + ash inp \<noteq> 0"
  shows "\<exists>fuel. calculate_fuel_properties inp = Inr fuel"
proof -
  obtain r where "dulong_heating_value (carbon inp) (hydrogen inp) (oxygen inp) (sulfur inp)
      (ash inp) (moisture inp) = Inr r"
    using dulong_returns[OF assms] by blast
  then show ?thesis
    unfolding calculate_fuel_properties_def Let_def by (simp add: ebind_Inr)
qed

lemma vapor_pressure_bound:
  fixes T :: real
  assumes "- 20 \<le> T" "T \<le> 50"
  shows "10 powr (ANTOINE_A - ANTOINE_B / (ANTOINE_C + T)) \<le> 100"
proof -
  have pos: "0 < ANTOINE_C + T" using assms by (simp add: ANTOINE_C_def)
  have "ANTOINE_C + T \<le> 283.426" using assms by (simp add: ANTOINE_C_def)
  then have "ANTOINE_B / 283.426 \<le> ANTOINE_B / (ANTOINE_C + T)"
    using pos by (intro divide_left_mono) (simp_all add: ANTOINE_B_def)
  moreover have "ANTOINE_A - ANTOINE_B / 283.426 \<le> 2"
    by (simp add: ANTOINE_A_def ANTOINE_B_def)
  ultimately have "ANTOINE_A - ANTOINE_B / (ANTOINE_C + T) \<le> 2" by linarith
  then have "10 powr (ANTOINE_A - ANTOINE_B / (ANTOINE_C + T)) \<le> (10::real) powr 2"
    by (intro powr_mono) simp_all
  then show ?thesis by simp
qed

text \<open>
  For an environment in the physical ranges (altitude from 0 to below 11000 m, -20 to
  50 degrees, humidity 0 to 100 percent) the second group returns: the vapour pressure
  stays below the atmospheric pressure, so no division is by zero.
\<close>

lemma calculate_air_properties_returns:
  assumes "0 \<le> altitude inp" "altitude inp < 11000"
    and "- 20 \<le> dry_bulb_temp inp" "dry_bulb_temp inp \<le> 50"
    and "0 \<le> relative_humidity inp" "relative_humidity inp \<le> 100"
  shows "\<exists>air. calculate_air_properties inp = Inr air"
proof -
  define x where "x = 1 - (0.0065 * altitude inp) / 288.15"
  define e :: real where "e = - (9.81 * 0.02896) / (8.314 * 0.0065)"
  define p where "p = 101.325 * x powr e"
  define T where "T = dry_bulb_temp inp"
  define s where "s = 10 powr (ANTOINE_A - ANTOINE_B / (ANTOINE_C + T))"
  define pv where "pv = relative_humidity inp / 100 * s * mmhg_to_kpa"
  have x: "0 < x" "x \<le> 1" using assms by (simp_all add: x_def)
  have e: "e \<le> 0" by (simp add: e_def)
  have p: "101.325 \<le> p" using powr_nonpos_ge_one[OF x e] by (simp add: p_def)
  have P: "pressure_altitude (altitude inp) = Inr p"
    unfolding p_def x_def e_def by (rule pressure_altitude_troposphere) (rule assms)
  have tk: "R_AIR * (T + 273.15) \<noteq> 0" using assms by (simp add: R_AIR_def T_def)
  have ct: "ANTOINE_C + T \<noteq> 0" using assms by (simp add: ANTOINE_C_def T_def)
  have S: "saturated_vapor_pressure T = Inr s"
    unfolding saturated_vapor_pressure_def Let_def s_def
    by (simp add: py_div_ok[OF ct] ebind_Inr math_pow_pos)
  have s: "0 \<le> s" "s \<le> 100"
    using vapor_pressure_bound[of T] assms by (simp_all add: s_def T_def)
  have "relative_humidity inp / 100 * s \<le> 1 * 100"
    using s assms by (intro mult_mono) simp_all
  then have "pv \<le> 100 * mmhg_to_kpa"
    unfolding pv_def by (simp add: mmhg_to_kpa_def mult.commute)
  then have "pv < 101.325" by (simp add: mmhg_to_kpa_def)
  then have d: "p - pv \<noteq> 0" using p by linarith
  have H: "absolute_humidity (relative_humidity inp) T p = Inr (0.622 * pv / (p - pv))"
    unfolding absolute_humidity_def Let_def
    by (simp only: S ebind_Inr pv_def[symmetric] py_div_ok[OF d])
  show ?thesis
    unfolding calculate_air_properties_def Let_def
    by (simp only: P ebind_Inr T_def[symmetric] py_div_ok[OF tk] H) blast
qed

text \<open>
  With the composition and the environment of the reference input, whatever the other
  fields hold, the pipeline ends in the NameError of \<open>combustion_products\<close>.
\<close>

lemma calculate_all_reference_like:
  assumes "carbon inp = 50.29" "hydrogen inp = 5.82" "oxygen inp = 42.94"
    "sulfur inp = 0.08" "ash inp = 0.66"
    "altitude inp = 2640" "dry_bulb_temp inp = 15" "relative_humidity inp = 75"
  shows "calculate_all fsolve inp = Inl (NameError ''oxygen'')"
proof -
  obtain fuel where f: "calculate_fuel_properties inp = Inr fuel"
    using calculate_fuel_properties_returns[of inp] assms by auto
  obtain air where a: "calculate_air_properties inp = Inr air"
    using calculate_air_properties_returns[of inp] assms by auto
  show ?thesis by (rule calculate_all_NameError[OF f a])
qed

text \<open>
  Claim C1 (the code at the failing input). On the reference input, the defaults of the
  input model, \<open>calculate_all\<close> produces no result: it raises NameError for the name
  \<^verbatim>\<open>oxygen\<close>, whatever the root finder.
\<close>

theorem calculate_all_reference_input:
  "calculate_all fsolve reference_input = Inl (NameError ''oxygen'')"
  by (rule calculate_all_reference_like) (simp_all add: reference_input_def)

section \<open>The volumetric fractions\<close>

lemma fractions_add_up:
  fixes a b c d e :: real
  assumes "0 < a + b + c + d + e"
  shows "a / (a + b + c + d + e) * 100 + b / (a + b + c + d + e) * 100
       + c / (a + b + c + d + e) * 100 + d / (a + b + c + d + e) * 100
       + e / (a + b + c + d + e) * 100 = 100"
proof -
  define T where "T = a + b + c + d + e"
  have nz: "T \<noteq> 0" using assms by (simp add: T_def)
  have "a / T * 100 + b / T * 100 + c / T * 100 + d / T * 100 + e / T * 100
      = (a + b + c + d + e) / T * 100"
    by (simp only: add_divide_distrib distrib_right)
  also have "\<dots> = T / T * 100" by (simp only: T_def)
  also have "\<dots> = 100" using nz by simp
  finally show ?thesis unfolding T_def .
qed

lemma compile_results_fractions_positive:
  assumes "0 < total_vol stoich"
  shows "co2_fraction_vol (compile_results inp fuel air stoich mass energy fluid heat emis)
           = (r_CO2_mass stoich / molar_mass_CO2) / total_vol stoich * 100"
    and "h2o_fraction_vol (compile_results inp fuel air stoich mass energy fluid heat emis)
           = (r_H2O_mass stoich / molar_mass_H2O) / total_vol stoich * 100"
    and "so2_fraction_vol (compile_results inp fuel air stoich mass energy fluid heat emis)
           = (r_SO2_mass stoich / molar_mass_SO2) / total_vol stoich * 100"
    and "o2_fraction_vol (compile_results inp fuel air stoich mass energy fluid heat emis)
           = (r_O2_excess stoich / molar_mass_O2) / total_vol stoich * 100"
    and "n2_fraction_vol (compile_results inp fuel air stoich mass energy fluid heat emis)
           = (r_N2_mass stoich / molar_mass_N2) / total_vol stoich * 100"
  using assms by (simp_all add: compile_results_def)

lemma compile_results_fractions_nonpositive:
  assumes "total_vol stoich \<le> 0"
  shows "co2_fraction_vol (compile_results inp fuel air stoich mass energy fluid heat emis) = 0"
    and "h2o_fraction_vol (compile_results inp fuel air stoich mass energy fluid heat emis) = 0"
    and "so2_fraction_vol (compile_results inp fuel air stoich mass energy fluid heat emis) = 0"
    and "o2_fraction_vol (compile_results inp fuel air stoich mass energy fluid heat emis) = 0"
    and "n2_fraction_vol (compile_results inp fuel air stoich mass energy fluid heat emis) = 0"
  using assms by (simp_all add: compile_results_def)

lemma compile_results_fractions_sum:
  assumes "0 < total_vol stoich"
  shows "co2_fraction_vol (compile_results inp fuel air stoich mass energy fluid heat emis)
       + h2o_fraction_vol (compile_results inp fuel air stoich mass energy fluid heat emis)
       + so2_fraction_vol (compile_results inp fuel air stoich mass energy fluid heat emis)
       + o2_fraction_vol (compile_results inp fuel air stoich mass energy fluid heat emis)
       + n2_fraction_vol (compile_results inp fuel air stoich mass energy fluid heat emis) = 100"
proof -
  define a where "a = r_CO2_mass stoich / molar_mass_CO2"
  define b where "b = r_H2O_mass stoich / molar_mass_H2O"
  define c where "c = r_O2_excess stoich / molar_mass_O2"
  define d where "d = r_N2_mass stoich / molar_mass_N2"
  define e where "e = r_SO2_mass stoich / molar_mass_SO2"
  have T: "total_vol stoich = a + b + c + d + e"
    by (simp add: total_vol_def a_def b_def c_def d_def e_def)
  have pos: "0 < a + b + c + d + e" using assms T by simp
  have "a / (a + b + c + d + e) * 100 + b / (a + b + c + d + e) * 100
      + e / (a + b + c + d + e) * 100 + c / (a + b + c + d + e) * 100
      + d / (a + b + c + d + e) * 100 = 100"
    using fractions_add_up[OF pos] by linarith
  then show ?thesis
    unfolding compile_results_fractions_positive[OF assms] T
      a_def[symmetric] b_def[symmetric] c_def[symmetric] d_def[symmetric] e_def[symmetric] .
qed

text \<open>
  Claim C5. In the record that \<open>compile_results\<close> builds, whatever the state it is
  given: when the total of the product moles is positive, the five volumetric fractions
  add up to 100 within 1 (to exactly 100 over the reals, lemma
  \<open>compile_results_fractions_sum\<close>); when the total is zero, all five are 0.
\<close>

theorem volumetric_fractions_sum:
  assumes "r = compile_results inp fuel air stoich mass energy fluid heat emis"
  shows "(0 < total_vol stoich \<longrightarrow>
            \<bar>co2_fraction_vol r + h2o_fraction_vol r + so2_fraction_vol r
              + o2_fraction_vol r + n2_fraction_vol r - 100\<bar> \<le> 1)
       \<and> (total_vol stoich = 0 \<longrightarrow>
            co2_fraction_vol r = 0 \<and> h2o_fraction_vol r = 0 \<and> so2_fraction_vol r = 0
            \<and> o2_fraction_vol r = 0 \<and> n2_fraction_vol r = 0)"
proof (intro conjI impI)
  assume "0 < total_vol stoich"
  from compile_results_fractions_sum[OF this]
  show "\<bar>co2_fraction_vol r + h2o_fraction_vol r + so2_fraction_vol r
              + o2_fraction_vol r + n2_fraction_vol r - 100\<bar> \<le> 1"
    unfolding assms by simp
next
  assume z: "total_vol stoich = 0"
  then have le: "total_vol stoich \<le> 0" by simp
  show "co2_fraction_vol r = 0" "h2o_fraction_vol r = 0" "so2_fraction_vol r = 0"
    "o2_fraction_vol r = 0" "n2_fraction_vol r = 0"
    unfolding assms by (rule compile_results_fractions_nonpositive[OF le])+
qed

text \<open>
  The witness: a state with positive masses, and the state with no products at all.
\<close>

theorem volumetric_fractions_sum_witness:
  "\<forall>inp fuel air mass energy fluid heat emis prods.
     (0 < total_vol \<lparr>r_products = prods, r_CO2_mass = 1.2, r_H2O_mass = 0.7,
                      r_SO2_mass = 0.001, r_O2_excess = 0.3, r_N2_mass = 4\<rparr>
      \<and> \<bar>co2_fraction_vol (compile_results inp fuel air
               \<lparr>r_products = prods, r_CO2_mass = 1.2, r_H2O_mass = 0.7,
                r_SO2_mass = 0.001, r_O2_excess = 0.3, r_N2_mass = 4\<rparr>
               mass energy fluid heat emis)
          + h2o_fraction_vol (compile_results inp fuel air
               \<lparr>r_products = prods, r_CO2_mass = 1.2, r_H2O_mass = 0.7,
                r_SO2_mass = 0.001, r_O2_excess = 0.3, r_N2_mass = 4\<rparr>
               mass energy fluid heat emis)
          + so2_fraction_vol (compile_results inp fuel air
               \<lparr>r_products = prods, r_CO2_mass = 1.2, r_H2O_mass = 0.7,
                r_SO2_mass = 0.001, r_O2_excess = 0.3, r_N2_mass = 4\<rparr>
               mass energy fluid heat emis)
          + o2_fraction_vol (compile_results inp fuel air
               \<lparr>r_products = prods, r_CO2_mass = 1.2, r_H2O_mass = 0.7,
                r_SO2_mass = 0.001, r_O2_excess = 0.3, r_N2_mass = 4\<rparr>
               mass energy fluid heat emis)
          + n2_fraction_vol (compile_results inp fuel air
               \<lparr>r_products = prods, r_CO2_mass = 1.2, r_H2O_mass = 0.7,
                r_SO2_mass = 0.001, r_O2_excess = 0.3, r_N2_mass = 4\<rparr>
               mass energy fluid heat emis) - 100\<bar> \<le> 1)
   \<and> (total_vol \<lparr>r_products = prods, r_CO2_mass = 0, r_H2O_mass = 0,
                   r_SO2_mass = 0, r_O2_excess = 0, r_N2_mass = 0\<rparr> = 0
      \<and> co2_fraction_vol (compile_results inp fuel air
            \<lparr>r_products = prods, r_CO2_mass = 0, r_H2O_mass = 0,
             r_SO2_mass = 0, r_O2_excess = 0, r_N2_mass = 0\<rparr>
            mass energy fluid heat emis) = 0
      \<and> n2_fraction_vol (compile_results inp fuel air
            \<lparr>r_products = prods, r_CO2_mass = 0, r_H2O_mass = 0,
             r_SO2_mass = 0, r_O2_excess = 0, r_N2_mass = 0\<rparr>
            mass energy fluid heat emis) = 0)"
proof (intro allI)
  fix inp fuel air mass energy fluid heat emis prods
  let ?s1 = "\<lparr>r_products = prods, r_CO2_mass = 1.2, r_H2O_mass = 0.7,
                r_SO2_mass = 0.001, r_O2_excess = 0.3, r_N2_mass = 4\<rparr>"
  let ?s0 = "\<lparr>r_products = prods, r_CO2_mass = 0, r_H2O_mass = 0,
                r_SO2_mass = 0, r_O2_excess = 0, r_N2_mass = 0\<rparr>"
  have p: "0 < total_vol ?s1"
    by (simp add: total_vol_def molar_mass_CO2_def molar_mass_H2O_def molar_mass_O2_def
        molar_mass_N2_def molar_mass_SO2_def)
  have z: "total_vol ?s0 = 0" by (simp add: total_vol_def)
  show "(0 < total_vol ?s1
      \<and> \<bar>co2_fraction_vol (compile_results inp fuel air ?s1 mass energy fluid heat emis)
          + h2o_fraction_vol (compile_results inp fuel air ?s1 mass energy fluid heat emis)
          + so2_fraction_vol (compile_results inp fuel air ?s1 mass energy fluid heat emis)
          + o2_fraction_vol (compile_results inp fuel air ?s1 mass energy fluid heat emis)
          + n2_fraction_vol (compile_results inp fuel air ?s1 mass energy fluid heat emis)
          - 100\<bar> \<le> 1)
   \<and> (total_vol ?s0 = 0
      \<and> co2_fraction_vol (compile_results inp fuel air ?s0 mass energy fluid heat emis) = 0
      \<and> n2_fraction_vol (compile_results inp fuel air ?s0 mass energy fluid heat emis) = 0)"
    using p z
      volumetric_fractions_sum[OF refl, of ?s1 inp fuel air mass energy fluid heat emis]
      volumetric_fractions_sum[OF refl, of ?s0 inp fuel air mass energy fluid heat emis]
    by blast
qed

section \<open>The sweep and the optimizer\<close>

text \<open>
  The samples themselves are as the sweep promises: \<open>n\<close> of them, evenly spaced from
  the first bound to the last.
\<close>

lemma length_linspace: "length (linspace a b n) = n"
  by (simp add: linspace_def)

lemma linspace_nth:
  assumes "i < n" "2 \<le> n"
  shows "linspace a b n ! i = a + real i * ((b - a) / real (n - 1))"
  using assms by (simp add: linspace_def)

lemma linspace_ends:
  assumes "2 \<le> n"
  shows "linspace a b n ! 0 = a" and "linspace a b n ! (n - 1) = b"
proof -
  show "linspace a b n ! 0 = a" using assms by (simp add: linspace_nth)
  have "n - 1 < n" using assms by simp
  then have "linspace a b n ! (n - 1) = a + real (n - 1) * ((b - a) / real (n - 1))"
    using assms by (rule linspace_nth)
  also have "\<dots> = b" using assms by simp
  finally show "linspace a b n ! (n - 1) = b" .
qed

lemma linspace_nonempty:
  assumes "0 < n"
  shows "\<exists>rest. linspace a b n = a # rest"
proof (cases "n = 1")
  case True
  then show ?thesis by (simp add: linspace_def)
next
  case False
  have "[0..<n] = 0 # [1..<n]" using assms by (simp add: upt_conv_Cons)
  then show ?thesis using False by (simp add: linspace_def)
qed

lemma sensitivity_loop_raises:
  assumes "setattr_input inp name (PyFloat v) = Inr inp'"
    and "calculate_all fsolve inp' = Inl e"
  shows "sensitivity_loop fsolve inp name (v # rest) acc = Inl e"
  by (cases acc) (simp add: assms ebind_Inr ebind_Inl)

lemma optimize_loop_raises:
  assumes "setattr_input inp name (PyFloat v) = Inr inp'"
    and "calculate_all fsolve inp' = Inl e"
  shows "optimize_loop fsolve inp name objective cs (v # rest) best = Inl e"
  by (cases best) (simp add: assms ebind_Inr ebind_Inl)

lemma getattr_excess_air:
  "getattr_input inp ''excess_air'' = Inr (PyFloat (excess_air inp))"
  by (simp add: getattr_input_def BiomassInput_fields_def)

lemma setattr_excess_air:
  "setattr_input inp ''excess_air'' (PyFloat v) = Inr (inp\<lparr>excess_air := v\<rparr>)"
  by (simp add: setattr_input_def set_float_def)

lemma getattr_flow_rate:
  "getattr_input inp ''flow_rate'' = Inr (PyFloat (flow_rate inp))"
  by (simp add: getattr_input_def BiomassInput_fields_def)

lemma setattr_flow_rate:
  "setattr_input inp ''flow_rate'' (PyFloat v) = Inr (inp\<lparr>flow_rate := v\<rparr>)"
  by (simp add: setattr_input_def set_float_def)

lemma calculate_all_reference_excess_air:
  "calculate_all fsolve (reference_input\<lparr>excess_air := v\<rparr>) = Inl (NameError ''oxygen'')"
  by (rule calculate_all_reference_like) (simp_all add: reference_input_def)

lemma calculate_all_reference_flow_rate:
  "calculate_all fsolve (reference_input\<lparr>flow_rate := v\<rparr>) = Inl (NameError ''oxygen'')"
  by (rule calculate_all_reference_like) (simp_all add: reference_input_def)

text \<open>
  Claim C6 (the code at the failing input). The sweep of the excess air over 10, 20, 30,
  40 and 50 percent on the reference bagasse, the one of \<^verbatim>\<open>test_sensitivity_analysis\<close>,
  returns no temperatures at all: the first sample already raises the NameError of
  \<open>combustion_products\<close>.
\<close>

theorem sensitivity_analysis_excess_air_sweep:
  "sensitivity_analysis fsolve reference_input ''excess_air'' [10, 20, 30, 40, 50]
     = Inl (NameError ''oxygen'')"
  unfolding sensitivity_analysis_def
  by (simp only: getattr_excess_air ebind_Inr ebind_Inl
      sensitivity_loop_raises[OF setattr_excess_air calculate_all_reference_excess_air])

lemma sensitivity_analysis_excess_air_linspace:
  assumes "0 < n"
  shows "sensitivity_analysis fsolve reference_input ''excess_air'' (linspace a b n)
     = Inl (NameError ''oxygen'')"
proof -
  obtain rest where l: "linspace a b n = a # rest"
    using linspace_nonempty[OF assms] by blast
  show ?thesis
    unfolding sensitivity_analysis_def l
    by (simp only: getattr_excess_air ebind_Inr ebind_Inl
      sensitivity_loop_raises[OF setattr_excess_air calculate_all_reference_excess_air])
qed

text \<open>
  Claim C7 (the code at the failing input). \<open>analyze_parameter\<close> on the reference
  input, sweeping the excess air by 50 percent with 20 samples (the defaults of the range
  and of the number of points), returns no sweep: the first of the 20 samples raises.
\<close>

theorem analyze_parameter_excess_air:
  "analyze_parameter fsolve metrics reference_input ''excess_air'' 50 20
     = Inl (NameError ''oxygen'')"
  unfolding analyze_parameter_def Let_def np_linspace_def
  by (simp add: getattr_excess_air py_num_def ebind_Inr ebind_Inl
      sensitivity_analysis_excess_air_linspace)

lemma optimize_parameter_excess_air_raises:
  "optimize_parameter fsolve reference_input ''excess_air'' objective cs
     = Inl (NameError ''oxygen'')"
proof -
  have "\<And>a b. \<exists>rest. linspace a b 100 = a # rest"
    by (rule linspace_nonempty) simp
  then have loop: "\<And>a b best. optimize_loop fsolve reference_input ''excess_air'' objective cs
      (linspace a b 100) best = Inl (NameError ''oxygen'')"
    using optimize_loop_raises[OF setattr_excess_air calculate_all_reference_excess_air]
    by metis
  show ?thesis
    unfolding optimize_parameter_def Let_def
    by (simp only: getattr_excess_air py_num_def pyval.case ebind_Inr loop ebind_Inl)
qed

lemma optimize_parameter_flow_rate_raises:
  "optimize_parameter fsolve reference_input ''flow_rate'' objective cs
     = Inl (NameError ''oxygen'')"
proof -
  have "\<And>a b. \<exists>rest. linspace a b 100 = a # rest"
    by (rule linspace_nonempty) simp
  then have loop: "\<And>a b best. optimize_loop fsolve reference_input ''flow_rate'' objective cs
      (linspace a b 100) best = Inl (NameError ''oxygen'')"
    using optimize_loop_raises[OF setattr_flow_rate calculate_all_reference_flow_rate]
    by metis
  show ?thesis
    unfolding optimize_parameter_def Let_def
    by (simp only: getattr_flow_rate py_num_def pyval.case ebind_Inr loop ebind_Inl)
qed

lemma improvement_of_raises:
  "improvement_of best_score r ''efficiency'' = Inl (AttributeError ''efficiency'')"
  "improvement_of best_score r ''temperature'' = Inl (AttributeError ''temperature'')"
  "improvement_of best_score r ''velocity'' = Inl (AttributeError ''velocity'')"
  by (simp_all add: improvement_of_def getattr_results_def CombustionResults_fields_def
      ebind_def)

text \<open>
  Claim C8 (the code at the failing input). An efficiency floor of 95 percent, which no
  sample of the reference input (efficiency 90) can meet: the optimizer does not fall
  back to the base value, it raises at its first sample.
\<close>

theorem optimize_parameter_no_valid_sample:
  "optimize_parameter fsolve reference_input ''excess_air'' ''efficiency''
     \<lparr>c_range = None, c_min = None, c_max = None, c_max_velocity = None,
      c_min_efficiency = Some 95, c_max_temp = None\<rparr>
   = Inl (NameError ''oxygen'')"
  by (rule optimize_parameter_excess_air_raises)

text \<open>
  Claim C9 (the code at the failing input). The optimizer returns no outcome on the
  reference input; and the improvement of the outcome, the best score minus
  \<^verbatim>\<open>getattr(results, objective)\<close>, raises for each of the three objectives, since
  the result record has no attribute called efficiency, temperature or velocity.
\<close>

theorem optimize_parameter_improvement:
  "optimize_parameter fsolve reference_input ''flow_rate'' ''temperature''
     \<lparr>c_range = None, c_min = None, c_max = None, c_max_velocity = None,
      c_min_efficiency = None, c_max_temp = None\<rparr>
   = Inl (NameError ''oxygen'')
   \<and> improvement_of best_score r ''efficiency'' = Inl (AttributeError ''efficiency'')
   \<and> improvement_of best_score r ''temperature'' = Inl (AttributeError ''temperature'')
   \<and> improvement_of best_score r ''velocity'' = Inl (AttributeError ''velocity'')"
  using optimize_parameter_flow_rate_raises improvement_of_raises by blast

end
